theory Spec2Isabelle
  imports Complex_Main
begin

section \<open>The COLLADA loader of gz-common (\<^verbatim>\<open>src/ColladaLoader.cc\<close>)\<close>

text \<open>
  Conventions of the embedding.
  \<^item> A read through a null pointer and an out-of-range read of a \<^verbatim>\<open>std::vector\<close> or
    array are undefined behaviour in the source; the model returns them as errors
    (\<open>Inl NullDeref\<close>, \<open>Inl OutOfRange\<close>), so every such read is a branch of the model.
  \<^item> \<^verbatim>\<open>unsigned int\<close> counters and indices are natural numbers: the streams are token
    vectors of one document and stay far below \<open>2^32\<close>, so no counter wraps.
  \<^item> Token splitting and number parsing (\<^verbatim>\<open>boost::split\<close>, \<^verbatim>\<open>parseInt\<close>,
    \<^verbatim>\<open>parseFloat\<close>, \<^verbatim>\<open>lexical_cast\<close>) belong to other libraries: the model takes the
    parsed token lists.
\<close>

text \<open>
  \<open>Diverges\<close> is the value of the stride loop of \<^verbatim>\<open>LoadTexCoords\<close> for a stride of zero,
  where the loop would never advance; \<^verbatim>\<open>LoadTexCoords\<close> never calls the loop so
  (\<open>LoadTexCoords_returns\<close> below).
\<close>

datatype error = NullDeref | OutOfRange | Diverges

text \<open>\<open>xs[i]\<close> on a vector or array.\<close>

definition elem_at :: "'a list \<Rightarrow> nat \<Rightarrow> error + 'a" where
  "elem_at xs i = (if i < length xs then Inr (xs ! i) else Inl OutOfRange)"

section \<open>Skin binder: the vertex-weight loop of \<^verbatim>\<open>LoadController\<close>\<close>

text \<open>
  Modelled from the spec: \<^verbatim>\<open>Skeleton::SetNumVertAttached\<close> and
  \<^verbatim>\<open>Skeleton::AddVertNodeWeight\<close> (\<^verbatim>\<open>Skeleton.cc\<close> is not among the sources). The
  skeleton keeps, per source vertex, an ordered list of (joint name, weight) pairs;
  \<open>SetNumVertAttached n\<close> makes room for \<open>n\<close> vertices and \<open>AddVertNodeWeight\<close> appends
  one pair to the list of vertex \<open>i\<close>.
\<close>

definition SetNumVertAttached :: "nat \<Rightarrow> ('j \<times> 'w) list list" where
  "SetNumVertAttached n = replicate n []"

definition AddVertNodeWeight ::
  "('j \<times> 'w) list list \<Rightarrow> nat \<Rightarrow> 'j \<Rightarrow> 'w \<Rightarrow> ('j \<times> 'w) list list" where
  "AddVertNodeWeight att i jn w = att[i := att ! i @ [(jn, w)]]"

text \<open>
  Lines 500-509:
  \<^verbatim>\<open>
  unsigned int vIndex = 0;
  for (unsigned int i = 0; i < vCount.size(); ++i)
    for (unsigned int j = 0; j < vCount[i]; ++j)
    {
      skeleton->AddVertNodeWeight(i, joints[v[vIndex + jOffset]],
                                    weights[v[vIndex + wOffset]]);
      vIndex += (jOffset + wOffset + 1);
    }
  \<close>
  The inner loop runs \<open>vCount[i]\<close> times and does not use \<open>j\<close>: the model counts the
  remaining iterations down. The state is the cursor \<open>vIndex\<close> and the attachments.
\<close>

fun vw_inner ::
  "'j list \<Rightarrow> 'w list \<Rightarrow> nat list \<Rightarrow> nat \<Rightarrow> nat \<Rightarrow> nat \<Rightarrow> nat
     \<Rightarrow> nat \<times> ('j \<times> 'w) list list \<Rightarrow> error + (nat \<times> ('j \<times> 'w) list list)" where
  "vw_inner joints weights v jOffset wOffset i 0 st = Inr st"
| "vw_inner joints weights v jOffset wOffset i (Suc c) (vIndex, att) =
     (case elem_at v (vIndex + jOffset) of Inl e \<Rightarrow> Inl e | Inr a \<Rightarrow>
      case elem_at joints a of Inl e \<Rightarrow> Inl e | Inr jn \<Rightarrow>
      case elem_at v (vIndex + wOffset) of Inl e \<Rightarrow> Inl e | Inr b \<Rightarrow>
      case elem_at weights b of Inl e \<Rightarrow> Inl e | Inr w \<Rightarrow>
        vw_inner joints weights v jOffset wOffset i c
          (vIndex + (jOffset + wOffset + 1), AddVertNodeWeight att i jn w))"

fun vw_outer ::
  "'j list \<Rightarrow> 'w list \<Rightarrow> nat list \<Rightarrow> nat \<Rightarrow> nat \<Rightarrow> nat list \<Rightarrow> nat
     \<Rightarrow> nat \<times> ('j \<times> 'w) list list \<Rightarrow> error + (nat \<times> ('j \<times> 'w) list list)" where
  "vw_outer joints weights v jOffset wOffset [] i st = Inr st"
| "vw_outer joints weights v jOffset wOffset (c # cs) i st =
     (case vw_inner joints weights v jOffset wOffset i c st of
        Inl e \<Rightarrow> Inl e
      | Inr st' \<Rightarrow> vw_outer joints weights v jOffset wOffset cs (Suc i) st')"

definition vertex_weights ::
  "'j list \<Rightarrow> 'w list \<Rightarrow> nat list \<Rightarrow> nat \<Rightarrow> nat \<Rightarrow> nat list \<Rightarrow> error + ('j \<times> 'w) list list" where
  "vertex_weights joints weights v jOffset wOffset vCount =
     (case vw_outer joints weights v jOffset wOffset vCount 0
             (0, SetNumVertAttached (length vCount)) of
        Inl e \<Rightarrow> Inl e
      | Inr (vIndex, att) \<Rightarrow> Inr att)"

text \<open>
  The record the specification describes at a cursor position, and the condition that
  the loop can read it.
\<close>

definition skin_record ::
  "'j list \<Rightarrow> 'w list \<Rightarrow> nat list \<Rightarrow> nat \<Rightarrow> nat \<Rightarrow> nat \<Rightarrow> 'j \<times> 'w" where
  "skin_record joints weights v j_off w_off cursor =
     (joints ! (v ! (cursor + j_off)), weights ! (v ! (cursor + w_off)))"

definition record_readable ::
  "'j list \<Rightarrow> 'w list \<Rightarrow> nat list \<Rightarrow> nat \<Rightarrow> nat \<Rightarrow> nat \<Rightarrow> bool" where
  "record_readable joints weights v j_off w_off cursor \<longleftrightarrow>
     cursor + j_off < length v \<and> v ! (cursor + j_off) < length joints \<and>
     cursor + w_off < length v \<and> v ! (cursor + w_off) < length weights"

section \<open>Source cache and accessor parsers\<close>

text \<open>
  A duplicate map (\<^verbatim>\<open>std::map<unsigned int, unsigned int>\<close>) sends the index of a
  repeated value to the index of its first occurrence.
\<close>

type_synonym dupmap = "nat \<rightharpoonup> nat"

text \<open>
  The step shared by the three parsers (lines 997-1003, 1077-1083, 1228-1236):
  \<^verbatim>\<open>
  _values.push_back(vec);
  if (unique.find(vec) != unique.end())
    _duplicates[_values.size()-1] = unique[vec];
  else
    unique[vec] = _values.size()-1;
  \<close>
  \<open>unique\<close> is the \<^verbatim>\<open>std::unordered_map\<close> from values to indices, local to one parse.
  Its key equality is the equality of the value type.
\<close>

definition push_value ::
  "'v \<Rightarrow> 'v list \<times> dupmap \<times> ('v \<rightharpoonup> nat) \<Rightarrow> 'v list \<times> dupmap \<times> ('v \<rightharpoonup> nat)" where
  "push_value vec st =
     (case st of (values, duplicates, unique) \<Rightarrow>
        let values' = values @ [vec] in
        (case unique vec of
           Some first \<Rightarrow> (values', duplicates(length values' - 1 \<mapsto> first), unique)
         | None \<Rightarrow> (values', duplicates, unique(vec \<mapsto> length values' - 1))))"

text \<open>
  \<^verbatim>\<open>LoadPositions\<close>, lines 989-1004: the iterator walks the tokens three at a time and
  stops only when it meets the end exactly. \<open>T\<close> is
  \<^verbatim>\<open>_transform * Vector3d(x, y, z)\<close>.
\<close>

fun positions_loop ::
  "('r \<times> 'r \<times> 'r \<Rightarrow> 'v) \<Rightarrow> 'r list \<Rightarrow> 'v list \<times> dupmap \<times> ('v \<rightharpoonup> nat)
     \<Rightarrow> error + ('v list \<times> dupmap \<times> ('v \<rightharpoonup> nat))" where
  "positions_loop T [] st = Inr st"
| "positions_loop T (x # y # z # strs) st = positions_loop T strs (push_value (T (x, y, z)) st)"
| "positions_loop T _ st = Inl OutOfRange"

text \<open>
  \<^verbatim>\<open>LoadNormals\<close>, lines 1069-1085: the stream yields complete triples and the loop ends
  at the first failed extraction. \<open>R\<close> is \<^verbatim>\<open>rotMat * vec\<close> (the node transform with its
  translation set to zero) and \<open>Normalize\<close> is \<^verbatim>\<open>Vector3d::Normalize\<close>.
\<close>

fun normals_loop ::
  "('r \<times> 'r \<times> 'r \<Rightarrow> 'v) \<Rightarrow> ('v \<Rightarrow> 'v) \<Rightarrow> 'r list \<Rightarrow> 'v list \<times> dupmap \<times> ('v \<rightharpoonup> nat)
     \<Rightarrow> 'v list \<times> dupmap \<times> ('v \<rightharpoonup> nat)" where
  "normals_loop R Normalize (x # y # z # strs) st =
     normals_loop R Normalize strs (push_value (Normalize (R (x, y, z))) st)"
| "normals_loop R Normalize _ st = st"

text \<open>
  \<^verbatim>\<open>LoadTexCoords\<close>, lines 1223-1237:
  \<^verbatim>\<open>
  for (int i = 0; i < totCount; i += stride)
  {
    ignition::math::Vector2d vec(boost::lexical_cast<double>(values[i]),
          1.0 - boost::lexical_cast<double>(values[i+1]));
    ...
  \<close>
  \<open>i\<close> and \<open>stride\<close> are \<^verbatim>\<open>int\<close>. A stride of zero cannot reach the loop from
  \<^verbatim>\<open>LoadTexCoords\<close> (the counts are checked first, see below); the loop would not advance.
\<close>

function texcoords_loop ::
  "int \<Rightarrow> int \<Rightarrow> 'r list \<Rightarrow> int \<Rightarrow> ('r \<times> 'r) list \<times> dupmap \<times> ('r \<times> 'r \<rightharpoonup> nat)
     \<Rightarrow> error + (('r::{one,minus} \<times> 'r) list \<times> dupmap \<times> ('r \<times> 'r \<rightharpoonup> nat))" where
  "texcoords_loop totCount stride values i st =
     (if i < totCount then
        (if i < 0 then Inl OutOfRange
         else
           case elem_at values (nat i) of Inl e \<Rightarrow> Inl e | Inr u \<Rightarrow>
           case elem_at values (nat (i + 1)) of Inl e \<Rightarrow> Inl e | Inr v \<Rightarrow>
             if stride = 0 then Inl Diverges
             else texcoords_loop totCount stride values (i + stride) (push_value (u, 1 - v) st))
      else Inr st)"
  by pat_completeness auto
termination
  by (relation "measure (\<lambda>(totCount, stride, values, i, st).
        if 0 < stride then nat (totCount - i) else nat (i + 1))") auto

declare texcoords_loop.simps [simp del]

text \<open>
  The view of the document that the parsers need, after \<^verbatim>\<open>ElementId\<close> has resolved an id:
  \<^item> \<open>doc_vertices id\<close>: the \<^verbatim>\<open><input>\<close> children (semantic, source) of the
    \<^verbatim>\<open><vertices>\<close> element, \<open>None\<close> when the element is not found;
  \<^item> \<open>doc_float_array id\<close>: the tokens of the \<^verbatim>\<open><float_array>\<close> text of a source,
    \<open>None\<close> when the source, the array or its text is missing (the parser then only
    prints a diagnostic and returns);
  \<^item> \<open>doc_accessor id\<close>: \<open>(totCount, stride, texCount)\<close>, the \<^verbatim>\<open>count\<close> of the float
    array and the \<^verbatim>\<open>stride\<close> and \<^verbatim>\<open>count\<close> of the accessor, \<open>None\<close> when one of them
    is missing (again a diagnostic and a return).
  The diagnostics of the parsers are not modelled.
\<close>

record 'r document =
  doc_vertices :: "string \<rightharpoonup> (string \<times> string) list"
  doc_float_array :: "string \<rightharpoonup> 'r list"
  doc_accessor :: "string \<rightharpoonup> int \<times> int \<times> int"

text \<open>The caches of \<^verbatim>\<open>ColladaLoaderPrivate\<close>, keyed by source id.\<close>

record ('v, 't) cache =
  positionIds :: "string \<rightharpoonup> 'v list"
  normalIds :: "string \<rightharpoonup> 'v list"
  texcoordIds :: "string \<rightharpoonup> 't list"
  positionDuplicateMap :: "string \<rightharpoonup> dupmap"
  normalDuplicateMap :: "string \<rightharpoonup> dupmap"
  texcoordDuplicateMap :: "string \<rightharpoonup> dupmap"

text \<open>\<^verbatim>\<open>Load\<close> clears the caches (lines 101-107).\<close>

definition empty_cache :: "('v, 't) cache" where
  "empty_cache = \<lparr>positionIds = Map.empty, normalIds = Map.empty, texcoordIds = Map.empty,
     positionDuplicateMap = Map.empty, normalDuplicateMap = Map.empty,
     texcoordDuplicateMap = Map.empty\<rparr>"

text \<open>\<open>m[id]\<close> on a \<^verbatim>\<open>std::map\<close> of duplicate maps: an absent key reads as the empty map.\<close>

definition dup_lookup :: "(string \<rightharpoonup> dupmap) \<Rightarrow> string \<Rightarrow> dupmap" where
  "dup_lookup m ident = (case m ident of Some d \<Rightarrow> d | None \<Rightarrow> Map.empty)"

text \<open>
  The three parsers take the caller's buffers \<open>(_values, _duplicates)\<close> and the caches and
  return both. On a cache hit the buffers are replaced by the cached entry; otherwise
  the parsed values are appended to the buffers and the buffers are stored.
\<close>

definition LoadPositions ::
  "'r document \<Rightarrow> string \<Rightarrow> ('r \<times> 'r \<times> 'r \<Rightarrow> 'v) \<Rightarrow> 'v list \<times> dupmap \<Rightarrow> ('v, 't) cache
     \<Rightarrow> error + (('v list \<times> dupmap) \<times> ('v, 't) cache)" where
  "LoadPositions doc ident T buf c =
     (case positionIds c ident of
        Some vs \<Rightarrow> Inr ((vs, dup_lookup (positionDuplicateMap c) ident), c)
      | None \<Rightarrow>
          (case doc_float_array doc ident of
             None \<Rightarrow> Inr (buf, c)
           | Some strs \<Rightarrow>
               (case positions_loop T strs (fst buf, snd buf, Map.empty) of
                  Inl e \<Rightarrow> Inl e
                | Inr (values, duplicates, unique) \<Rightarrow>
                    Inr ((values, duplicates),
                         c\<lparr>positionDuplicateMap := (positionDuplicateMap c)(ident \<mapsto> duplicates),
                           positionIds := (positionIds c)(ident \<mapsto> values)\<rparr>))))"

definition LoadNormals ::
  "'r document \<Rightarrow> string \<Rightarrow> ('r \<times> 'r \<times> 'r \<Rightarrow> 'v) \<Rightarrow> ('v \<Rightarrow> 'v) \<Rightarrow> 'v list \<times> dupmap
     \<Rightarrow> ('v, 't) cache \<Rightarrow> ('v list \<times> dupmap) \<times> ('v, 't) cache" where
  "LoadNormals doc ident R Normalize buf c =
     (case normalIds c ident of
        Some vs \<Rightarrow> ((vs, dup_lookup (normalDuplicateMap c) ident), c)
      | None \<Rightarrow>
          (case doc_float_array doc ident of
             None \<Rightarrow> (buf, c)
           | Some strs \<Rightarrow>
               (case normals_loop R Normalize strs (fst buf, snd buf, Map.empty) of
                  (values, duplicates, unique) \<Rightarrow>
                    ((values, duplicates),
                     c\<lparr>normalDuplicateMap := (normalDuplicateMap c)(ident \<mapsto> duplicates),
                       normalIds := (normalIds c)(ident \<mapsto> values)\<rparr>))))"

text \<open>
  \<^verbatim>\<open>LoadTexCoords\<close>, lines 1199-1240: the counts must add up
  (\<^verbatim>\<open>texCount * stride != totCount\<close> prints an error and returns), a total of zero
  returns, and otherwise the loop runs and the buffers are cached.
\<close>

definition LoadTexCoords ::
  "'r document \<Rightarrow> string \<Rightarrow> ('r \<times> 'r) list \<times> dupmap \<Rightarrow> ('v, 'r \<times> 'r) cache
     \<Rightarrow> error + ((('r::{one,minus} \<times> 'r) list \<times> dupmap) \<times> ('v, 'r \<times> 'r) cache)" where
  "LoadTexCoords doc ident buf c =
     (case texcoordIds c ident of
        Some vs \<Rightarrow> Inr ((vs, dup_lookup (texcoordDuplicateMap c) ident), c)
      | None \<Rightarrow>
          (case (doc_float_array doc ident, doc_accessor doc ident) of
             (Some values, Some (totCount, stride, texCount)) \<Rightarrow>
               if texCount * stride \<noteq> totCount then Inr (buf, c)
               else if totCount = 0 then Inr (buf, c)
               else
                 (case texcoords_loop totCount stride values 0 (fst buf, snd buf, Map.empty) of
                    Inl e \<Rightarrow> Inl e
                  | Inr (vs, duplicates, unique) \<Rightarrow>
                      Inr ((vs, duplicates),
                           c\<lparr>texcoordDuplicateMap := (texcoordDuplicateMap c)(ident \<mapsto> duplicates),
                             texcoordIds := (texcoordIds c)(ident \<mapsto> vs)\<rparr>))
           | _ \<Rightarrow> Inr (buf, c)))"

text \<open>
  \<^verbatim>\<open>LoadVertices\<close>, lines 896-928: the inputs of the \<^verbatim>\<open><vertices>\<close> element in document
  order; NORMAL goes to \<^verbatim>\<open>LoadNormals\<close>, POSITION to \<^verbatim>\<open>LoadPositions\<close>, any other
  semantic is skipped.
\<close>

fun LoadVertices_inputs ::
  "'r document \<Rightarrow> ('r \<times> 'r \<times> 'r \<Rightarrow> 'v) \<Rightarrow> ('r \<times> 'r \<times> 'r \<Rightarrow> 'v) \<Rightarrow> ('v \<Rightarrow> 'v)
     \<Rightarrow> (string \<times> string) list
     \<Rightarrow> ('v list \<times> dupmap) \<times> ('v list \<times> dupmap) \<times> ('v, 't) cache
     \<Rightarrow> error + (('v list \<times> dupmap) \<times> ('v list \<times> dupmap) \<times> ('v, 't) cache)" where
  "LoadVertices_inputs doc T R Normalize [] st = Inr st"
| "LoadVertices_inputs doc T R Normalize ((semantic, sourceStr) # inputs) (verts, norms, c) =
     (if semantic = ''NORMAL'' then
        (case LoadNormals doc sourceStr R Normalize norms c of
           (norms', c') \<Rightarrow> LoadVertices_inputs doc T R Normalize inputs (verts, norms', c'))
      else if semantic = ''POSITION'' then
        (case LoadPositions doc sourceStr T verts c of
           Inl e \<Rightarrow> Inl e
         | Inr (verts', c') \<Rightarrow> LoadVertices_inputs doc T R Normalize inputs (verts', norms, c'))
      else LoadVertices_inputs doc T R Normalize inputs (verts, norms, c))"

definition LoadVertices ::
  "'r document \<Rightarrow> string \<Rightarrow> ('r \<times> 'r \<times> 'r \<Rightarrow> 'v) \<Rightarrow> ('r \<times> 'r \<times> 'r \<Rightarrow> 'v) \<Rightarrow> ('v \<Rightarrow> 'v)
     \<Rightarrow> ('v list \<times> dupmap) \<times> ('v list \<times> dupmap) \<times> ('v, 't) cache
     \<Rightarrow> error + (('v list \<times> dupmap) \<times> ('v list \<times> dupmap) \<times> ('v, 't) cache)" where
  "LoadVertices doc ident T R Normalize st =
     (case doc_vertices doc ident of
        None \<Rightarrow> Inr st
      | Some inputs \<Rightarrow> LoadVertices_inputs doc T R Normalize inputs st)"





text \<open>
  A document for the scenarios: a texture-coordinate source with the single UV
  \<open>(0.25, 0.75)\<close> (stride 2, count 1), a second texture-coordinate source, and a
  position source whose third point repeats the first.
\<close>

definition S4_document :: "real document" where
  "S4_document = \<lparr>doc_vertices = Map.empty,
     doc_float_array = [''#uv'' \<mapsto> [1/4, 3/4], ''#uv2'' \<mapsto> [1/2, 1/2],
       ''#pos'' \<mapsto> [1, 2, 3, 4, 5, 6, 1, 2, 3]],
     doc_accessor = [''#uv'' \<mapsto> (2, 2, 1), ''#uv2'' \<mapsto> (2, 2, 1)]\<rparr>"


text \<open>The complete triples of a token list, as the stream extraction of \<^verbatim>\<open>LoadNormals\<close> reads them.\<close>

fun triples :: "'r list \<Rightarrow> ('r \<times> 'r \<times> 'r) list" where
  "triples (x # y # z # strs) = (x, y, z) # triples strs"
| "triples _ = []"

section \<open>Geometry weaver: \<^verbatim>\<open>LoadTriangles\<close> and \<^verbatim>\<open>LoadPolylist\<close>\<close>

subsection \<open>Containers\<close>

text \<open>
  \<^verbatim>\<open>GeometryIndices\<close> is declared in \<^verbatim>\<open>ColladaLoaderPrivate.hh\<close>, which is not among the
  sources; the fields are the four the weaver assigns and reads. An entry is stored only
  when the primitive has a VERTEX input, and then \<open>vertexIndex\<close> and \<open>mappedIndex\<close> are
  assigned; \<open>normalIndex\<close> and \<open>texcoordIndex\<close> are assigned only when the primitive has
  that input (\<open>None\<close>: never assigned).
\<close>

record GeometryIndices =
  vertexIndex :: nat
  normalIndex :: "nat option"
  texcoordIndex :: "nat option"
  mappedIndex :: nat

text \<open>
  Modelled from the spec: the \<^verbatim>\<open>SubMesh\<close> container (\<^verbatim>\<open>SubMesh.cc\<close> is not among the
  sources), an opaque sink with the operations \<^verbatim>\<open>add_vertex\<close>, \<^verbatim>\<open>add_normal\<close>,
  \<^verbatim>\<open>add_tex_coord\<close>, \<^verbatim>\<open>add_index\<close>, \<^verbatim>\<open>vertex_count\<close>, \<^verbatim>\<open>vertex(i)\<close>,
  \<^verbatim>\<open>set_vertex(i, v)\<close> and \<^verbatim>\<open>add_node_assignment(vertex_index, node_handle, weight)\<close>.
  A node handle is represented by the joint name it was looked up with.
\<close>

record ('v, 't, 'j, 'w) SubMesh =
  vertices :: "'v list"
  normals :: "'v list"
  texCoords :: "'t list"
  indices :: "nat list"
  nodeAssignments :: "(nat \<times> 'j \<times> 'w) list"

definition new_SubMesh :: "('v, 't, 'j, 'w) SubMesh" where
  "new_SubMesh = \<lparr>vertices = [], normals = [], texCoords = [], indices = [],
     nodeAssignments = []\<rparr>"

definition AddVertex :: "('v, 't, 'j, 'w) SubMesh \<Rightarrow> 'v \<Rightarrow> ('v, 't, 'j, 'w) SubMesh" where
  "AddVertex sm v = sm\<lparr>vertices := vertices sm @ [v]\<rparr>"

definition AddNormal :: "('v, 't, 'j, 'w) SubMesh \<Rightarrow> 'v \<Rightarrow> ('v, 't, 'j, 'w) SubMesh" where
  "AddNormal sm n = sm\<lparr>normals := normals sm @ [n]\<rparr>"

definition AddTexCoord :: "('v, 't, 'j, 'w) SubMesh \<Rightarrow> 't \<Rightarrow> ('v, 't, 'j, 'w) SubMesh" where
  "AddTexCoord sm t = sm\<lparr>texCoords := texCoords sm @ [t]\<rparr>"

definition AddIndex :: "('v, 't, 'j, 'w) SubMesh \<Rightarrow> nat \<Rightarrow> ('v, 't, 'j, 'w) SubMesh" where
  "AddIndex sm i = sm\<lparr>indices := indices sm @ [i]\<rparr>"

definition VertexCount :: "('v, 't, 'j, 'w) SubMesh \<Rightarrow> nat" where
  "VertexCount sm = length (vertices sm)"

definition Vertex :: "('v, 't, 'j, 'w) SubMesh \<Rightarrow> nat \<Rightarrow> 'v" where
  "Vertex sm i = vertices sm ! i"

definition SetVertex :: "('v, 't, 'j, 'w) SubMesh \<Rightarrow> nat \<Rightarrow> 'v \<Rightarrow> ('v, 't, 'j, 'w) SubMesh" where
  "SetVertex sm i v = sm\<lparr>vertices := (vertices sm)[i := v]\<rparr>"

definition AddNodeAssignment ::
  "('v, 't, 'j, 'w) SubMesh \<Rightarrow> nat \<Rightarrow> 'j \<Rightarrow> 'w \<Rightarrow> ('v, 't, 'j, 'w) SubMesh" where
  "AddNodeAssignment sm vi node w = sm\<lparr>nodeAssignments := nodeAssignments sm @ [(vi, node, w)]\<rparr>"

text \<open>
  Modelled from the spec: the part of the \<^verbatim>\<open>Skeleton\<close> the weaver reads
  (\<^verbatim>\<open>Skeleton.cc\<close> is not among the sources): the bind-shape transform, as the action
  \<open>v \<mapsto> bindShapeMat * v\<close>, and the per-vertex attachments that the skin binder wrote
  (\<^verbatim>\<open>vert_node_weight_count\<close>, \<^verbatim>\<open>vert_node_weight\<close>). A vertex without an entry has no
  attachment.
\<close>

record ('v, 'j, 'w) Skeleton =
  BindShapeTransform :: "'v \<Rightarrow> 'v"
  rawNodeWeights :: "('j \<times> 'w) list list"

definition VertNodeWeights :: "('v, 'j, 'w) Skeleton \<Rightarrow> nat \<Rightarrow> ('j \<times> 'w) list" where
  "VertNodeWeights skel i =
     (if i < length (rawNodeWeights skel) then rawNodeWeights skel ! i else [])"

subsection \<open>The inputs of a primitive\<close>

text \<open>
  \<^verbatim>\<open>std::map<const unsigned int, int> inputs\<close>: assignment \<open>m[k] = v\<close>, lookup \<open>m[k]\<close> (an
  absent key reads as 0) and \<open>m.size()\<close>, on an association list with one pair per key.
  Offsets are non-negative.
\<close>

fun assign :: "(nat \<times> nat) list \<Rightarrow> nat \<Rightarrow> nat \<Rightarrow> (nat \<times> nat) list" where
  "assign [] k v = [(k, v)]"
| "assign ((k', v') # m) k v = (if k' = k then (k, v) # m else (k', v') # assign m k v)"

definition input_offset :: "(nat \<times> nat) list \<Rightarrow> nat \<Rightarrow> nat" where
  "input_offset m k = (case map_of m k of Some off \<Rightarrow> off | None \<Rightarrow> 0)"

definition VERTEX :: nat where "VERTEX = 0"
definition NORMAL :: nat where "NORMAL = 1"
definition TEXCOORD :: nat where "TEXCOORD = 2"

text \<open>
  The locals that the \<^verbatim>\<open><input>\<close> loop of a primitive fills and the weaving loop reads,
  with the loader's caches (\<open>dataPtr\<close>) and the semantics warned about (\<open>warnings\<close>, one
  \<^verbatim>\<open>ignwarn\<close> line each).
\<close>

record ('v, 'r) primitive =
  verts :: "'v list"
  norms :: "'v list"
  texcoords :: "('r \<times> 'r) list"
  positionDupMap :: dupmap
  normalDupMap :: dupmap
  texDupMap :: dupmap
  inputs :: "(nat \<times> nat) list"
  otherSemantics :: nat
  hasVertices :: bool
  hasNormals :: bool
  hasTexcoords :: bool
  combinedVertNorms :: bool
  offsetSize :: nat
  warnings :: "string list"
  dataPtr :: "('v, 'r \<times> 'r) cache"

definition new_primitive :: "('v, 'r \<times> 'r) cache \<Rightarrow> ('v, 'r) primitive" where
  "new_primitive c = \<lparr>verts = [], norms = [], texcoords = [],
     positionDupMap = Map.empty, normalDupMap = Map.empty, texDupMap = Map.empty,
     inputs = [], otherSemantics = TEXCOORD + 1,
     hasVertices = False, hasNormals = False, hasTexcoords = False,
     combinedVertNorms = False, offsetSize = 0, warnings = [], dataPtr = c\<rparr>"

text \<open>
  One \<^verbatim>\<open><input semantic source offset>\<close> of \<^verbatim>\<open><triangles>\<close>, lines 1777-1811. A
  TEXCOORD input is loaded only while \<open>hasTexcoords\<close> is false ("we currently only
  support one set of UVs").
\<close>

definition load_VERTEX ::
  "'r document \<Rightarrow> ('r \<times> 'r \<times> 'r \<Rightarrow> 'v) \<Rightarrow> ('r \<times> 'r \<times> 'r \<Rightarrow> 'v) \<Rightarrow> ('v \<Rightarrow> 'v)
     \<Rightarrow> string \<Rightarrow> nat \<Rightarrow> ('v, 'r) primitive \<Rightarrow> error + ('v, 'r) primitive" where
  "load_VERTEX doc T R Normalize source offset p =
     (let count = length (norms p) in
      case LoadVertices doc source T R Normalize
             ((verts p, positionDupMap p), (norms p, normalDupMap p), dataPtr p) of
        Inl e \<Rightarrow> Inl e
      | Inr ((vs, pd), (ns, nd), c) \<Rightarrow>
          Inr (p\<lparr>verts := vs, positionDupMap := pd, norms := ns, normalDupMap := nd,
                 dataPtr := c,
                 combinedVertNorms := (if count < length ns then True else combinedVertNorms p),
                 inputs := assign (inputs p) VERTEX offset,
                 hasVertices := True\<rparr>))"

definition load_NORMAL ::
  "'r document \<Rightarrow> ('r \<times> 'r \<times> 'r \<Rightarrow> 'v) \<Rightarrow> ('v \<Rightarrow> 'v)
     \<Rightarrow> string \<Rightarrow> nat \<Rightarrow> ('v, 'r) primitive \<Rightarrow> ('v, 'r) primitive" where
  "load_NORMAL doc R Normalize source offset p =
     (case LoadNormals doc source R Normalize (norms p, normalDupMap p) (dataPtr p) of
        ((ns, nd), c) \<Rightarrow>
          p\<lparr>norms := ns, normalDupMap := nd, dataPtr := c,
            combinedVertNorms := False,
            inputs := assign (inputs p) NORMAL offset,
            hasNormals := True\<rparr>)"

definition load_TEXCOORD ::
  "'r document \<Rightarrow> string \<Rightarrow> nat \<Rightarrow> ('v, 'r) primitive
     \<Rightarrow> error + ('v, 'r::{one,minus}) primitive" where
  "load_TEXCOORD doc source offset p =
     (case LoadTexCoords doc source (texcoords p, texDupMap p) (dataPtr p) of
        Inl e \<Rightarrow> Inl e
      | Inr ((ts, td), c) \<Rightarrow>
          Inr (p\<lparr>texcoords := ts, texDupMap := td, dataPtr := c,
                 inputs := assign (inputs p) TEXCOORD offset,
                 hasTexcoords := True\<rparr>))"

definition unsupported_semantic :: "string \<Rightarrow> nat \<Rightarrow> ('v, 'r) primitive \<Rightarrow> ('v, 'r) primitive" where
  "unsupported_semantic semantic offset p =
     p\<lparr>inputs := assign (inputs p) (otherSemantics p) offset,
       otherSemantics := otherSemantics p + 1,
       warnings := warnings p @ [semantic]\<rparr>"

definition LoadTriangles_input ::
  "'r document \<Rightarrow> ('r \<times> 'r \<times> 'r \<Rightarrow> 'v) \<Rightarrow> ('r \<times> 'r \<times> 'r \<Rightarrow> 'v) \<Rightarrow> ('v \<Rightarrow> 'v)
     \<Rightarrow> string \<times> string \<times> nat \<Rightarrow> ('v, 'r) primitive
     \<Rightarrow> error + ('v, 'r::{one,minus}) primitive" where
  "LoadTriangles_input doc T R Normalize inp p =
     (case inp of (semantic, source, offset) \<Rightarrow>
        (case (if semantic = ''VERTEX'' then load_VERTEX doc T R Normalize source offset p
               else if semantic = ''NORMAL'' then Inr (load_NORMAL doc R Normalize source offset p)
               else if semantic = ''TEXCOORD'' \<and> \<not> hasTexcoords p then
                 load_TEXCOORD doc source offset p
               else Inr (unsupported_semantic semantic offset p)) of
           Inl e \<Rightarrow> Inl e
         | Inr p' \<Rightarrow> Inr (p'\<lparr>offsetSize := offsetSize p' + 1\<rparr>)))"

text \<open>The \<^verbatim>\<open>while (trianglesInputXml)\<close> loop over the \<^verbatim>\<open><input>\<close> children.\<close>

fun LoadTriangles_inputs ::
  "'r document \<Rightarrow> ('r \<times> 'r \<times> 'r \<Rightarrow> 'v) \<Rightarrow> ('r \<times> 'r \<times> 'r \<Rightarrow> 'v) \<Rightarrow> ('v \<Rightarrow> 'v)
     \<Rightarrow> (string \<times> string \<times> nat) list \<Rightarrow> ('v, 'r) primitive
     \<Rightarrow> error + ('v, 'r::{one,minus}) primitive" where
  "LoadTriangles_inputs doc T R Normalize [] p = Inr p"
| "LoadTriangles_inputs doc T R Normalize (inp # inps) p =
     (case LoadTriangles_input doc T R Normalize inp p of
        Inl e \<Rightarrow> Inl e
      | Inr p' \<Rightarrow> LoadTriangles_inputs doc T R Normalize inps p')"

text \<open>
  The same loop of \<^verbatim>\<open><polylist>\<close>, lines 1479-1515: every TEXCOORD input is loaded, and
  there is no \<open>offsetSize\<close> (the weaving loop uses \<^verbatim>\<open>inputs.size()\<close>).
\<close>

definition LoadPolylist_input ::
  "'r document \<Rightarrow> ('r \<times> 'r \<times> 'r \<Rightarrow> 'v) \<Rightarrow> ('r \<times> 'r \<times> 'r \<Rightarrow> 'v) \<Rightarrow> ('v \<Rightarrow> 'v)
     \<Rightarrow> string \<times> string \<times> nat \<Rightarrow> ('v, 'r) primitive
     \<Rightarrow> error + ('v, 'r::{one,minus}) primitive" where
  "LoadPolylist_input doc T R Normalize inp p =
     (case inp of (semantic, source, offset) \<Rightarrow>
        if semantic = ''VERTEX'' then load_VERTEX doc T R Normalize source offset p
        else if semantic = ''NORMAL'' then Inr (load_NORMAL doc R Normalize source offset p)
        else if semantic = ''TEXCOORD'' then load_TEXCOORD doc source offset p
        else Inr (unsupported_semantic semantic offset p))"

fun LoadPolylist_inputs ::
  "'r document \<Rightarrow> ('r \<times> 'r \<times> 'r \<Rightarrow> 'v) \<Rightarrow> ('r \<times> 'r \<times> 'r \<Rightarrow> 'v) \<Rightarrow> ('v \<Rightarrow> 'v)
     \<Rightarrow> (string \<times> string \<times> nat) list \<Rightarrow> ('v, 'r) primitive
     \<Rightarrow> error + ('v, 'r::{one,minus}) primitive" where
  "LoadPolylist_inputs doc T R Normalize [] p = Inr p"
| "LoadPolylist_inputs doc T R Normalize (inp # inps) p =
     (case LoadPolylist_input doc T R Normalize inp p of
        Inl e \<Rightarrow> Inl e
      | Inr p' \<Rightarrow> LoadPolylist_inputs doc T R Normalize inps p')"

subsection \<open>Single-index re-weaving of one corner\<close>

text \<open>\<open>dup.find(i) != dup.end() ? dup[i] : i\<close>.\<close>

definition remap :: "dupmap \<Rightarrow> nat \<Rightarrow> nat" where
  "remap dup i = (case dup i of Some first \<Rightarrow> first | None \<Rightarrow> i)"

text \<open>
  The remapped normal and texture-coordinate index of a corner, read from its index
  tuple \<open>vals\<close> (the array \<^verbatim>\<open>values\<close>).
\<close>

definition remappedNormalIndex :: "('v, 'r) primitive \<Rightarrow> nat list \<Rightarrow> error + nat" where
  "remappedNormalIndex p vals =
     (case elem_at vals (input_offset (inputs p) NORMAL) of
        Inl e \<Rightarrow> Inl e
      | Inr i \<Rightarrow> Inr (remap (normalDupMap p) i))"

definition remappedTexcoordIndex :: "('v, 'r) primitive \<Rightarrow> nat list \<Rightarrow> error + nat" where
  "remappedTexcoordIndex p vals =
     (case elem_at vals (input_offset (inputs p) TEXCOORD) of
        Inl e \<Rightarrow> Inl e
      | Inr i \<Rightarrow> Inr (remap (texDupMap p) i))"

text \<open>
  The scan of \<^verbatim>\<open>vertexIndexMap[daeVertIndex]\<close> for an entry with the same normal and
  texture-coordinate indices (lines 1893-1933, 1604-1648): the result is the
  \<open>mappedIndex\<close> of the first matching entry.
\<close>

fun reuse_scan ::
  "('v, 'r) primitive \<Rightarrow> nat list \<Rightarrow> GeometryIndices list \<Rightarrow> error + nat option" where
  "reuse_scan p vals [] = Inr None"
| "reuse_scan p vals (iv # inputValues) =
     (case (if hasNormals p then
              (case remappedNormalIndex p vals of
                 Inl e \<Rightarrow> Inl e
               | Inr n \<Rightarrow> Inr (normalIndex iv = Some n))
            else Inr False) of
        Inl e \<Rightarrow> Inl e
      | Inr normEqual \<Rightarrow>
     (case (if hasTexcoords p then
              (case remappedTexcoordIndex p vals of
                 Inl e \<Rightarrow> Inl e
               | Inr t \<Rightarrow> Inr (texcoordIndex iv = Some t))
            else Inr False) of
        Inl e \<Rightarrow> Inl e
      | Inr texEqual \<Rightarrow>
          if (\<not> hasNormals p \<or> normEqual) \<and> (\<not> hasTexcoords p \<or> texEqual)
          then Inr (Some (mappedIndex iv))
          else reuse_scan p vals inputValues))"

text \<open>
  The two paths differ only in what they do for a skinned mesh. \<^verbatim>\<open>LoadTriangles\<close>
  (lines 1950-1963) copies the attachments of source vertex \<^verbatim>\<open>values[daeVertIndex]\<close>;
  \<^verbatim>\<open>LoadPolylist\<close> (lines 1664-1679) first replaces the new vertex by
  \<^verbatim>\<open>bindShapeMat * vertex\<close> and copies the attachments of source vertex
  \<^verbatim>\<open>daeVertIndex\<close>.
\<close>

datatype path = Triangles | Polylist

definition copy_attachments ::
  "('v, 'j, 'w) Skeleton \<Rightarrow> nat \<Rightarrow> ('v, 't, 'j, 'w) SubMesh \<Rightarrow> ('v, 't, 'j, 'w) SubMesh" where
  "copy_attachments skel i sm =
     foldl (\<lambda>sm' (jn, w). AddNodeAssignment sm' (VertexCount sm' - 1) jn w) sm
       (VertNodeWeights skel i)"

definition skin_vertex ::
  "path \<Rightarrow> ('v, 'j, 'w) Skeleton option \<Rightarrow> nat list \<Rightarrow> nat \<Rightarrow> nat
     \<Rightarrow> ('v, 't, 'j, 'w) SubMesh \<Rightarrow> error + ('v, 't, 'j, 'w) SubMesh" where
  "skin_vertex path skeleton vals daeVertIndex newVertIndex sm =
     (case skeleton of
        None \<Rightarrow> Inr sm
      | Some skel \<Rightarrow>
          (case path of
             Triangles \<Rightarrow>
               (case elem_at vals daeVertIndex of
                  Inl e \<Rightarrow> Inl e
                | Inr i \<Rightarrow> Inr (copy_attachments skel i sm))
           | Polylist \<Rightarrow>
               Inr (copy_attachments skel daeVertIndex
                      (SetVertex sm newVertIndex
                         (BindShapeTransform skel (Vertex sm newVertIndex))))))"

text \<open>
  The branch \<^verbatim>\<open>if (addIndex)\<close> (lines 1939-1992, 1654-1712), in the order of the source:
  position (with the combined normal and the skinning), normal, texture coordinate, and
  last the assignment \<^verbatim>\<open>vertexIndexMap[daeVertIndex] = inputValues\<close> of a vector that holds
  the new entry alone.
\<close>

definition emit_position ::
  "path \<Rightarrow> ('v, 'j, 'w) Skeleton option \<Rightarrow> ('v, 'r) primitive \<Rightarrow> nat list \<Rightarrow> nat
     \<Rightarrow> ('v, 'r \<times> 'r, 'j, 'w) SubMesh \<Rightarrow> error + ('v, 'r \<times> 'r, 'j, 'w) SubMesh \<times> nat" where
  "emit_position path skeleton p vals daeVertIndex subMesh =
     (case elem_at (verts p) daeVertIndex of
        Inl e \<Rightarrow> Inl e
      | Inr v \<Rightarrow>
          let sm1 = AddVertex subMesh v;
              newVertIndex = VertexCount sm1 - 1;
              sm2 = AddIndex sm1 newVertIndex
          in
          (case (if combinedVertNorms p then
                   (case elem_at (norms p) daeVertIndex of
                      Inl e \<Rightarrow> Inl e
                    | Inr n \<Rightarrow> Inr (AddNormal sm2 n))
                 else Inr sm2) of
             Inl e \<Rightarrow> Inl e
           | Inr sm3 \<Rightarrow>
               (case skin_vertex path skeleton vals daeVertIndex newVertIndex sm3 of
                  Inl e \<Rightarrow> Inl e
                | Inr sm4 \<Rightarrow> Inr (sm4, newVertIndex))))"

definition emit_normal ::
  "('v, 'r) primitive \<Rightarrow> nat list \<Rightarrow> ('v, 'r \<times> 'r, 'j, 'w) SubMesh
     \<Rightarrow> error + ('v, 'r \<times> 'r, 'j, 'w) SubMesh \<times> nat option" where
  "emit_normal p vals subMesh =
     (if hasNormals p then
        (case remappedNormalIndex p vals of
           Inl e \<Rightarrow> Inl e
         | Inr i \<Rightarrow>
             (case elem_at (norms p) i of
                Inl e \<Rightarrow> Inl e
              | Inr n \<Rightarrow> Inr (AddNormal subMesh n, Some i)))
      else Inr (subMesh, None))"

definition emit_texcoord ::
  "('v, 'r) primitive \<Rightarrow> nat list \<Rightarrow> ('v, 'r \<times> 'r, 'j, 'w) SubMesh
     \<Rightarrow> error + ('v, 'r \<times> 'r, 'j, 'w) SubMesh \<times> nat option" where
  "emit_texcoord p vals subMesh =
     (if hasTexcoords p then
        (case remappedTexcoordIndex p vals of
           Inl e \<Rightarrow> Inl e
         | Inr i \<Rightarrow>
             (case elem_at (texcoords p) i of
                Inl e \<Rightarrow> Inl e
              | Inr t \<Rightarrow> Inr (AddTexCoord subMesh t, Some i)))
      else Inr (subMesh, None))"

type_synonym ('v, 'r, 'j, 'w) weave_state =
  "(nat \<rightharpoonup> GeometryIndices list) \<times> ('v, 'r \<times> 'r, 'j, 'w) SubMesh"

definition add_vertex ::
  "path \<Rightarrow> ('v, 'j, 'w) Skeleton option \<Rightarrow> ('v, 'r) primitive \<Rightarrow> nat list \<Rightarrow> nat
     \<Rightarrow> ('v, 'r, 'j, 'w) weave_state \<Rightarrow> error + ('v, 'r, 'j, 'w) weave_state" where
  "add_vertex path skeleton p vals daeVertIndex st =
     (case st of (vertexIndexMap, subMesh) \<Rightarrow>
        (case (if hasVertices p then
                 (case emit_position path skeleton p vals daeVertIndex subMesh of
                    Inl e \<Rightarrow> Inl e
                  | Inr (sm, newVertIndex) \<Rightarrow> Inr (sm, Some newVertIndex))
               else Inr (subMesh, None)) of
           Inl e \<Rightarrow> Inl e
         | Inr (sm1, mapped) \<Rightarrow>
        (case emit_normal p vals sm1 of
           Inl e \<Rightarrow> Inl e
         | Inr (sm2, n) \<Rightarrow>
        (case emit_texcoord p vals sm2 of
           Inl e \<Rightarrow> Inl e
         | Inr (sm3, t) \<Rightarrow>
             Inr (case mapped of
                    Some newVertIndex \<Rightarrow>
                      (vertexIndexMap(daeVertIndex \<mapsto>
                         [\<lparr>vertexIndex = daeVertIndex, normalIndex = n, texcoordIndex = t,
                           mappedIndex = newVertIndex\<rparr>]), sm3)
                  | None \<Rightarrow> (vertexIndexMap, sm3))))))"

text \<open>
  One corner (lines 1867-1992, 1577-1712): look the remapped position index up in
  \<open>vertexIndexMap\<close>; reuse the output index of a matching entry, or add a vertex.
\<close>

definition weave_corner ::
  "path \<Rightarrow> ('v, 'j, 'w) Skeleton option \<Rightarrow> ('v, 'r) primitive \<Rightarrow> nat list
     \<Rightarrow> ('v, 'r, 'j, 'w) weave_state \<Rightarrow> error + ('v, 'r, 'j, 'w) weave_state" where
  "weave_corner path skeleton p vals st =
     (case st of (vertexIndexMap, subMesh) \<Rightarrow>
        if hasVertices p then
          (case elem_at vals (input_offset (inputs p) VERTEX) of
             Inl e \<Rightarrow> Inl e
           | Inr i \<Rightarrow>
               let daeVertIndex = remap (positionDupMap p) i in
               (case vertexIndexMap daeVertIndex of
                  None \<Rightarrow> add_vertex path skeleton p vals daeVertIndex st
                | Some inputValues \<Rightarrow>
                    (case reuse_scan p vals inputValues of
                       Inl e \<Rightarrow> Inl e
                     | Inr (Some reuseIndex) \<Rightarrow> Inr (vertexIndexMap, AddIndex subMesh reuseIndex)
                     | Inr None \<Rightarrow> add_vertex path skeleton p vals daeVertIndex st)))
        else add_vertex path skeleton p vals 0 st)"

subsection \<open>The index streams\<close>

text \<open>
  \<^verbatim>\<open>LoadTriangles\<close>, lines 1862-1993:
  \<^verbatim>\<open>for (unsigned int j = 0; j < strs.size(); j += offsetSize)\<close>, reading
  \<^verbatim>\<open>strs[j+i]\<close> for \<open>i < offsetSize\<close>. \<open>strs\<close> below is the rest of the stream from \<open>j\<close>
  on. Without any \<^verbatim>\<open><input>\<close> the step is zero and the loop does not advance: the loop
  is a partial function, and \<open>None\<close> is "does not return".
\<close>

partial_function (option) triangles_loop ::
  "('v, 'j, 'w) Skeleton option \<Rightarrow> ('v, 'r) primitive \<Rightarrow> nat list
     \<Rightarrow> ('v, 'r, 'j, 'w) weave_state \<Rightarrow> (error + ('v, 'r, 'j, 'w) weave_state) option" where
  "triangles_loop skeleton p strs st =
     (if strs = [] then Some (Inr st)
      else if length strs < offsetSize p then Some (Inl OutOfRange)
      else
        (case weave_corner Triangles skeleton p (take (offsetSize p) strs) st of
           Inl e \<Rightarrow> Some (Inl e)
         | Inr st' \<Rightarrow> triangles_loop skeleton p (drop (offsetSize p) strs) st'))"

text \<open>Sequencing of fallible steps over a list: a counted \<^verbatim>\<open>for\<close> loop.\<close>

fun for_each :: "('a \<Rightarrow> 's \<Rightarrow> error + 's) \<Rightarrow> 'a list \<Rightarrow> 's \<Rightarrow> error + 's" where
  "for_each f [] st = Inr st"
| "for_each f (x # xs) st = (case f x st of Inl e \<Rightarrow> Inl e | Inr st' \<Rightarrow> for_each f xs st')"

text \<open>
  \<^verbatim>\<open>LoadPolylist\<close>, lines 1541-1715. \<open>strs\<close> is the stream from \<^verbatim>\<open>strs_iter\<close> on; the
  tuple width is \<^verbatim>\<open>inputs.size()\<close>.
  \<^verbatim>\<open>
  for (unsigned int l = 0; l < vcounts.size(); ++l)
  {
    if (l > 0) strs_iter += inputs.size()*vcounts[l-1];
    for (unsigned int k = 2; k < (unsigned int)vcounts[l]; ++k)
      for (unsigned int j = 0; j < 3; ++j)
      {
        if (j == 0) triangle_index = 0;
        if (j == 1) triangle_index = (k-1)*inputs.size();
        if (j == 2) triangle_index = (k)*inputs.size();
        for (unsigned int i = 0; i < inputs.size(); ++i)
          values[i] = ignition::math::parseInt(strs_iter[triangle_index+i]);
        ...
  \<close>
\<close>

definition triangle_index :: "nat \<Rightarrow> nat \<Rightarrow> nat \<Rightarrow> nat" where
  "triangle_index width k j =
     (if j = 0 then 0 else if j = 1 then (k - 1) * width else k * width)"

definition read_values :: "nat list \<Rightarrow> nat \<Rightarrow> nat \<Rightarrow> error + nat list" where
  "read_values strs start width =
     (if width = 0 then Inr []
      else if start + width \<le> length strs then Inr (take width (drop start strs))
      else Inl OutOfRange)"

definition polylist_corner ::
  "('v, 'j, 'w) Skeleton option \<Rightarrow> ('v, 'r) primitive \<Rightarrow> nat list \<Rightarrow> nat \<Rightarrow> nat
     \<Rightarrow> ('v, 'r, 'j, 'w) weave_state \<Rightarrow> error + ('v, 'r, 'j, 'w) weave_state" where
  "polylist_corner skeleton p strs k j st =
     (case read_values strs (triangle_index (length (inputs p)) k j) (length (inputs p)) of
        Inl e \<Rightarrow> Inl e
      | Inr vals \<Rightarrow> weave_corner Polylist skeleton p vals st)"

fun polylist_loop ::
  "('v, 'j, 'w) Skeleton option \<Rightarrow> ('v, 'r) primitive \<Rightarrow> nat list \<Rightarrow> nat list
     \<Rightarrow> ('v, 'r, 'j, 'w) weave_state \<Rightarrow> error + ('v, 'r, 'j, 'w) weave_state" where
  "polylist_loop skeleton p [] strs st = Inr st"
| "polylist_loop skeleton p (n # vcounts) strs st =
     (case for_each (\<lambda>k. for_each (polylist_corner skeleton p strs k) [0..<3]) [2..<n] st of
        Inl e \<Rightarrow> Inl e
      | Inr st' \<Rightarrow> polylist_loop skeleton p vcounts (drop (length (inputs p) * n) strs) st')"

text \<open>
  Fan triangulation of a token stream cut into tuples of a given width: the \<open>m\<close>-th
  tuple of a polygon, the triangles \<open>(c_0, c_(k-1), c_k)\<close> for \<open>k = 2 .. n-1\<close> of a
  polygon of \<open>n\<close> tuples, and the triangles of a list of polygons, in order.
\<close>

definition polygon_corner :: "nat \<Rightarrow> nat list \<Rightarrow> nat \<Rightarrow> nat list" where
  "polygon_corner width strs m = take width (drop (m * width) strs)"

definition fan_triangles :: "nat \<Rightarrow> nat list \<Rightarrow> nat \<Rightarrow> nat list list" where
  "fan_triangles width strs n =
     concat (map (\<lambda>k. [polygon_corner width strs 0, polygon_corner width strs (k - 1),
                        polygon_corner width strs k]) [2..<n])"

fun polylist_corners :: "nat \<Rightarrow> nat list \<Rightarrow> nat list \<Rightarrow> nat list list" where
  "polylist_corners width [] strs = []"
| "polylist_corners width (n # vcounts) strs =
     fan_triangles width strs n @ polylist_corners width vcounts (drop (width * n) strs)"
subsection \<open>The triangles of a polylist in the specification's words\<close>

text \<open>
  An \<^verbatim>\<open><input>\<close> of a primitive is the triple (semantic, source, offset) of its
  attributes. The tuple width of the specification: "Let \<open>W\<close> = number of distinct
  offsets = tuple width. The index stream \<^verbatim>\<open><p>\<close> is split on whitespace into integers
  and consumed \<open>W\<close> at a time."
\<close>

definition tuple_width :: "(string \<times> string \<times> nat) list \<Rightarrow> nat" where
  "tuple_width inps = length (remdups (map (\<lambda>(semantic, source, offset). offset) inps))"

text \<open>
  The corners of the polygons are the consecutive \<open>W\<close>-tuples of \<^verbatim>\<open><p>\<close>, \<open>n_l\<close> of them
  for polygon \<open>l\<close>, and "each polygon is fan-triangulated around its first vertex,
  producing triangles \<open>(0, k-1, k)\<close> for \<open>k = 2 .. n_l - 1\<close>": the corners of the
  triangles of a polylist, in the order of emission.
\<close>

definition polylist_triangles ::
  "(string \<times> string \<times> nat) list \<Rightarrow> nat list \<Rightarrow> nat list \<Rightarrow> nat list list" where
  "polylist_triangles inps vcounts strs = polylist_corners (tuple_width inps) vcounts strs"

text \<open>
  "Parse \<^verbatim>\<open><input>\<close> children to record, per semantic, its source and offset": the
  offset recorded for a semantic is that of its input, of the last one when the
  semantic is repeated.
\<close>

fun find_offset :: "(string \<times> string \<times> nat) list \<Rightarrow> string \<Rightarrow> nat option" where
  "find_offset [] s = None"
| "find_offset ((semantic, source, offset) # inps) s =
     (case find_offset inps s of
        Some off \<Rightarrow> Some off
      | None \<Rightarrow> if semantic = s then Some offset else None)"

definition has_input :: "(string \<times> string \<times> nat) list \<Rightarrow> string \<Rightarrow> bool" where
  "has_input inps s = (find_offset inps s \<noteq> None)"

definition semantic_offset :: "(string \<times> string \<times> nat) list \<Rightarrow> string \<Rightarrow> nat" where
  "semantic_offset inps s = (case find_offset inps s of Some off \<Rightarrow> off | None \<Rightarrow> 0)"





text \<open>
  A corner is readable when each offset lies inside the tuple and each remapped index
  inside the buffer it refers to. Any other read is out of range.
\<close>

definition corner_readable ::
  "(string \<times> string \<times> nat) list \<Rightarrow> ('v, 'r) primitive \<Rightarrow> nat list \<Rightarrow> bool" where
  "corner_readable inps p corner \<longleftrightarrow>
     semantic_offset inps ''VERTEX'' < length corner \<and>
     remap (positionDupMap p) (corner ! semantic_offset inps ''VERTEX'') < length (verts p) \<and>
     (combinedVertNorms p \<longrightarrow>
        remap (positionDupMap p) (corner ! semantic_offset inps ''VERTEX'') < length (norms p)) \<and>
     (has_input inps ''NORMAL'' \<longrightarrow>
        semantic_offset inps ''NORMAL'' < length corner \<and>
        remap (normalDupMap p) (corner ! semantic_offset inps ''NORMAL'') < length (norms p)) \<and>
     (has_input inps ''TEXCOORD'' \<longrightarrow>
        semantic_offset inps ''TEXCOORD'' < length corner \<and>
        remap (texDupMap p) (corner ! semantic_offset inps ''TEXCOORD'') < length (texcoords p))"


subsection \<open>Invariants of the weaving loop\<close>




text \<open>Every stored vector of entries has exactly one element.\<close>

definition single_entries :: "(nat \<rightharpoonup> GeometryIndices list) \<Rightarrow> bool" where
  "single_entries vertexIndexMap \<longleftrightarrow> (\<forall>d es. vertexIndexMap d = Some es \<longrightarrow> length es = 1)"





subsection \<open>Scenario inputs\<close>


text \<open>
  A primitive with four positions and two normals, VERTEX at offset 0 and NORMAL at
  offset 1, and the index stream of three triangles: \<open>(P0,P1,P2)\<close> with normal \<open>NA\<close>,
  \<open>(P0,P2,P3)\<close> with normal \<open>NB\<close>, and \<open>(P0,P3,P1)\<close> with normal \<open>NA\<close> again.
\<close>

definition two_normals_primitive :: "(string, real) primitive" where
  "two_normals_primitive = (new_primitive empty_cache)
     \<lparr>verts := [''P0'', ''P1'', ''P2'', ''P3''], norms := [''NA'', ''NB''],
      inputs := [(VERTEX, 0), (NORMAL, 1)],
      hasVertices := True, hasNormals := True, offsetSize := 2\<rparr>"

definition three_triangles :: "nat list" where
  "three_triangles = [0,0, 1,0, 2,0,  0,1, 2,1, 3,1,  0,0, 3,0, 1,0]"

text \<open>
  The specification's reading of the map across one corner: the entry recorded first
  for a position is still among the entries stored for it afterwards.
\<close>

definition first_entry_retained ::
  "(nat \<rightharpoonup> GeometryIndices list) \<Rightarrow> (nat \<rightharpoonup> GeometryIndices list) \<Rightarrow> nat \<Rightarrow> bool" where
  "first_entry_retained before after p =
     (case before p of
        None \<Rightarrow> True
      | Some [] \<Rightarrow> True
      | Some (first # _) \<Rightarrow> (case after p of None \<Rightarrow> False | Some es \<Rightarrow> first \<in> set es))"

text \<open>The weaving state after the first \<open>n\<close> corners of \<open>three_triangles\<close>.\<close>

definition corners_woven :: "nat \<Rightarrow> (string, real, string, real) weave_state" where
  "corners_woven n =
     (case triangles_loop None two_normals_primitive (take (2 * n) three_triangles)
             (Map.empty, new_SubMesh) of
        Some (Inr st) \<Rightarrow> st
      | _ \<Rightarrow> (Map.empty, new_SubMesh))"


text \<open>
  A quad with four positions, two normals and two sets of texture coordinates, and two
  lists of \<^verbatim>\<open><input>\<close> elements for it. In \<open>textured_inputs\<close> every semantic occurs once
  and has an offset of its own; the index stream \<open>textured_quad\<close> gives corner \<open>i\<close> the
  position \<open>i\<close>, the normal 0 and the texture coordinate \<open>i\<close>. In \<open>two_uv_inputs\<close> the
  second set of texture coordinates (at offset 2) is declared before the first (at
  offset 1), three distinct offsets in all; the index stream \<open>two_uv_quad\<close> gives corner
  \<open>i\<close> the position \<open>i\<close> and the texture coordinates \<open>i\<close> of both sets.
\<close>

definition quad_document :: "real document" where
  "quad_document = \<lparr>doc_vertices = [''#quad-vertices'' \<mapsto> [(''POSITION'', ''#quad-positions'')]],
     doc_float_array = [''#quad-positions'' \<mapsto> [0, 0, 0,  1, 0, 0,  1, 1, 0,  0, 1, 0],
       ''#quad-normals'' \<mapsto> [0, 0, 1,  0, 1, 0],
       ''#uvA'' \<mapsto> [0, 0,  1, 0,  1, 1,  0, 1],
       ''#uvB'' \<mapsto> [0, 0,  1/2, 0,  1/2, 1/2,  0, 1/2]],
     doc_accessor = [''#uvA'' \<mapsto> (8, 2, 4), ''#uvB'' \<mapsto> (8, 2, 4)]\<rparr>"




definition two_uv_quad :: "nat list" where
  "two_uv_quad = [0, 0, 0,  1, 1, 1,  2, 2, 2,  3, 3, 3]"


section \<open>The XML reader surface\<close>

text \<open>
  An element carries a tag name (\<^verbatim>\<open>Value()\<close>), named attributes, an optional text and an
  ordered list of child elements. A \<^verbatim>\<open>tinyxml2::XMLElement *\<close> is an element together with
  the siblings that follow it, so that \<^verbatim>\<open>NextSiblingElement\<close> can be followed; the null
  pointer is the empty list.
\<close>

datatype XMLElement =
  XMLElement (Value: string) (attributes: "(string \<times> string) list") (GetText: "string option")
    (children: "XMLElement list")

definition Attribute :: "XMLElement \<Rightarrow> string \<Rightarrow> string option" where
  "Attribute e name = map_of (attributes e) name"

definition FirstChildElement :: "string \<Rightarrow> XMLElement \<Rightarrow> XMLElement list" where
  "FirstChildElement name e = dropWhile (\<lambda>c. Value c \<noteq> name) (children e)"

definition NextSiblingElement :: "string \<Rightarrow> XMLElement list \<Rightarrow> XMLElement list" where
  "NextSiblingElement name ptr = dropWhile (\<lambda>c. Value c \<noteq> name) (tl ptr)"

text \<open>
  \<^verbatim>\<open>ElementId(_parent, _name, _id)\<close>, lines 855-882: depth-first search for the first
  element whose \<^verbatim>\<open>id\<close> or \<^verbatim>\<open>sid\<close> is the reference without its leading \<^verbatim>\<open>#\<close> (or, for an
  empty reference, whose tag is \<open>_name\<close>).
\<close>

definition strip_hash :: "string \<Rightarrow> string" where
  "strip_hash ident = (case ident of c # cs \<Rightarrow> if c = CHR ''#'' then cs else ident | [] \<Rightarrow> [])"

fun ElementId :: "XMLElement \<Rightarrow> string \<Rightarrow> string \<Rightarrow> XMLElement option"
  and ElementId_children :: "XMLElement list \<Rightarrow> string \<Rightarrow> string \<Rightarrow> XMLElement option" where
  "ElementId (XMLElement tag attrs txt elems) name ident =
     (if (strip_hash ident = [] \<and> tag = name) \<or>
         map_of attrs ''id'' = Some (strip_hash ident) \<or>
         map_of attrs ''sid'' = Some (strip_hash ident)
      then Some (XMLElement tag attrs txt elems)
      else ElementId_children elems name ident)"
| "ElementId_children [] name ident = None"
| "ElementId_children (elem # elems) name ident =
     (case ElementId elem name ident of
        Some result \<Rightarrow> Some result
      | None \<Rightarrow> ElementId_children elems name ident)"

section \<open>Animation sets: \<^verbatim>\<open>LoadAnimations\<close>\<close>

text \<open>
  Lines 516-530:
  \<^verbatim>\<open>
  tinyxml2::XMLElement *childXml = _xml->FirstChildElement("animation");
  if (childXml->FirstChildElement("animation"))
  {
    while (childXml)
    {
      this->LoadAnimationSet(childXml, _skel);
      childXml->NextSiblingElement("animation");
    }
  }
  else
    this->LoadAnimationSet(_xml, _skel);
  \<close>
  The model records the elements that \<^verbatim>\<open>LoadAnimationSet\<close> is invoked on, in order. The
  loop may not return: it is a partial function, and \<open>None\<close> is "does not return". The
  value of \<^verbatim>\<open>NextSiblingElement\<close> is computed and dropped, as in the source.
\<close>

partial_function (option) LoadAnimations_loop ::
  "XMLElement list \<Rightarrow> XMLElement list \<Rightarrow> XMLElement list option" where
  "LoadAnimations_loop childXml calls =
     (case childXml of
        [] \<Rightarrow> Some calls
      | elem # siblings \<Rightarrow>
          (let unused = NextSiblingElement ''animation'' childXml
           in LoadAnimations_loop childXml (calls @ [elem])))"

definition LoadAnimations :: "XMLElement \<Rightarrow> (error + XMLElement list) option" where
  "LoadAnimations xml =
     (case FirstChildElement ''animation'' xml of
        [] \<Rightarrow> Some (Inl NullDeref)
      | child # siblings \<Rightarrow>
          if FirstChildElement ''animation'' child \<noteq> []
          then map_option Inr (LoadAnimations_loop (child # siblings) [])
          else Some (Inr [xml]))"

text \<open>
  The loop the specification describes: one invocation for each top-level
  \<^verbatim>\<open><animation>\<close> child, in document order.
\<close>

definition top_level_animations :: "XMLElement \<Rightarrow> XMLElement list" where
  "top_level_animations xml = filter (\<lambda>c. Value c = ''animation'') (children xml)"

text \<open>A \<^verbatim>\<open><library_animations>\<close> with two animation groups.\<close>

definition nested_library :: XMLElement where
  "nested_library =
     XMLElement ''library_animations'' [] None
       [XMLElement ''animation'' [(''id'', ''walk'')] None
          [XMLElement ''animation'' [] None []],
        XMLElement ''animation'' [(''id'', ''run'')] None
          [XMLElement ''animation'' [] None []]]"

section \<open>Skeleton nodes: \<^verbatim>\<open>SetSkeletonNodeTransform\<close>\<close>

text \<open>
  Modelled from the spec: a raw transform (\<^verbatim>\<open>NodeTransform\<close>, declared in
  \<^verbatim>\<open>SkeletonNode.hh\<close>, which is not among the sources) is tagged
  TRANSLATE/ROTATE/SCALE/MATRIX and keeps its source parameters and an optional SID. The
  source parameters are represented by the text they are parsed from; \<open>None\<close> is a SID
  that was never set. The composed 4x4 matrix, which the function also computes, is
  matrix arithmetic of another library and is not modelled.
\<close>

datatype NodeTransformType = TRANSLATE | ROTATE | SCALE | MATRIX

record NodeTransform =
  nt_type :: NodeTransformType
  nt_sid :: "string option"
  nt_source :: string

text \<open>Lines 765-791: every \<^verbatim>\<open><rotate>\<close> child, in document order.\<close>

function rotate_loop :: "XMLElement list \<Rightarrow> NodeTransform list \<Rightarrow> error + NodeTransform list" where
  "rotate_loop [] raw = Inr raw"
| "rotate_loop (rotateXml # siblings) raw =
     (case GetText rotateXml of
        None \<Rightarrow> Inl NullDeref
      | Some rotateStr \<Rightarrow>
          rotate_loop (NextSiblingElement ''rotate'' (rotateXml # siblings))
            (raw @ [\<lparr>nt_type = ROTATE, nt_sid = Attribute rotateXml ''sid'',
                     nt_source = rotateStr\<rparr>]))"
  by pat_completeness auto
termination
  by (relation "measure (\<lambda>(ptr, raw). length ptr)")
    (auto simp: NextSiblingElement_def intro: le_imp_less_Suc length_dropWhile_le)

text \<open>
  Lines 724-813. The result is the list of raw transforms added to the node. In the
  branch without a \<^verbatim>\<open><matrix>\<close> child, the \<^verbatim>\<open><scale>\<close> element reads its SID through
  \<^verbatim>\<open>_elem->FirstChildElement("matrix")->Attribute("sid")\<close> (lines 802-803).
\<close>

definition SetSkeletonNodeTransform :: "XMLElement \<Rightarrow> error + NodeTransform list" where
  "SetSkeletonNodeTransform elem =
     (case FirstChildElement ''matrix'' elem of
        matrixXml # _ \<Rightarrow>
          (case GetText matrixXml of
             None \<Rightarrow> Inl NullDeref
           | Some matrixStr \<Rightarrow>
               Inr [\<lparr>nt_type = MATRIX, nt_sid = Attribute matrixXml ''sid'',
                     nt_source = matrixStr\<rparr>])
      | [] \<Rightarrow>
          (case (case FirstChildElement ''translate'' elem of
                   [] \<Rightarrow> Inr []
                 | translateXml # _ \<Rightarrow>
                     (case GetText translateXml of
                        None \<Rightarrow> Inl NullDeref
                      | Some transStr \<Rightarrow>
                          Inr [\<lparr>nt_type = TRANSLATE, nt_sid = Attribute translateXml ''sid'',
                                nt_source = transStr\<rparr>])) of
             Inl e \<Rightarrow> Inl e
           | Inr raw1 \<Rightarrow>
          (case rotate_loop (FirstChildElement ''rotate'' elem) raw1 of
             Inl e \<Rightarrow> Inl e
           | Inr raw2 \<Rightarrow>
          (case FirstChildElement ''scale'' elem of
             [] \<Rightarrow> Inr raw2
           | scaleXml # _ \<Rightarrow>
               (case GetText scaleXml of
                  None \<Rightarrow> Inl NullDeref
                | Some scaleStr \<Rightarrow>
                    (case FirstChildElement ''matrix'' elem of
                       [] \<Rightarrow> Inl NullDeref
                     | matrixXml # _ \<Rightarrow>
                         Inr (raw2 @ [\<lparr>nt_type = SCALE, nt_sid = Attribute matrixXml ''sid'',
                                       nt_source = scaleStr\<rparr>])))))))"

text \<open>
  What the specification asks of the branch without \<^verbatim>\<open><matrix>\<close>: each element is
  pushed with its own kind, source parameters and SID.
\<close>

definition raw_transform_of :: "NodeTransformType \<Rightarrow> XMLElement \<Rightarrow> NodeTransform" where
  "raw_transform_of kind e =
     \<lparr>nt_type = kind, nt_sid = Attribute e ''sid'', nt_source = the (GetText e)\<rparr>"

text \<open>A joint with a translation, a rotation and a scale, each with its SID.\<close>

definition joint_node :: XMLElement where
  "joint_node =
     XMLElement ''node'' [(''id'', ''hip''), (''type'', ''JOINT'')] None
       [XMLElement ''translate'' [(''sid'', ''location'')] (Some ''0 0 1'') [],
        XMLElement ''rotate'' [(''sid'', ''rotationZ'')] (Some ''0 0 1 90'') [],
        XMLElement ''scale'' [(''sid'', ''size'')] (Some ''2 2 2'') []]"

section \<open>Scene driver: \<^verbatim>\<open>Load\<close> and \<^verbatim>\<open>LoadScene\<close>\<close>

text \<open>The diagnostics sinks.\<close>

datatype msg = ignerr string | ignwarn string | ignlog string

text \<open>
  Modelled from the spec: the \<^verbatim>\<open>Mesh\<close> container (\<^verbatim>\<open>Mesh.cc\<close> is not among the sources),
  with the operations \<^verbatim>\<open>set_path\<close> and \<^verbatim>\<open>scale(v3)\<close>; the node loader adds the
  sub-meshes. The uniform scale is kept as the list of factors applied.
\<close>

record ('s, 'r) Mesh =
  meshPath :: string
  subMeshes :: "'s list"
  scaleFactors :: "'r list"

definition new_Mesh :: "('s, 'r) Mesh" where
  "new_Mesh = \<lparr>meshPath = [], subMeshes = [], scaleFactors = []\<rparr>"

definition SetPath :: "('s, 'r) Mesh \<Rightarrow> string \<Rightarrow> ('s, 'r) Mesh" where
  "SetPath mesh p = mesh\<lparr>meshPath := p\<rparr>"

definition Scale :: "('s, 'r) Mesh \<Rightarrow> 'r \<Rightarrow> ('s, 'r) Mesh" where
  "Scale mesh factor = mesh\<lparr>scaleFactors := scaleFactors mesh @ [factor]\<rparr>"

text \<open>
  Lines 114-118: the directory of the file, \<^verbatim>\<open>_filename.substr(0, _filename.rfind('/'))\<close>,
  empty when the name has no \<^verbatim>\<open>/\<close>.
\<close>

definition dirname :: "string \<Rightarrow> string" where
  "dirname filename =
     (if CHR ''/'' \<in> set filename
      then rev (tl (dropWhile (\<lambda>c. c \<noteq> CHR ''/'') (rev filename)))
      else [])"

text \<open>
  \<^verbatim>\<open>LoadScene\<close>, lines 155-175. The node loader \<^verbatim>\<open>LoadNode\<close> (with everything below it:
  transforms, geometry, controllers, materials) is a parameter: it takes the root
  element, a \<^verbatim>\<open><node>\<close> and the mesh, and returns the mesh and its diagnostics, or fails.
\<close>

function LoadScene_nodes ::
  "(XMLElement \<Rightarrow> XMLElement \<Rightarrow> ('s, 'r) Mesh \<Rightarrow> error + ('s, 'r) Mesh \<times> msg list)
     \<Rightarrow> XMLElement \<Rightarrow> XMLElement list \<Rightarrow> ('s, 'r) Mesh \<times> msg list
     \<Rightarrow> error + ('s, 'r) Mesh \<times> msg list" where
  "LoadScene_nodes LoadNode colladaXml [] st = Inr st"
| "LoadScene_nodes LoadNode colladaXml (nodeXml # siblings) (mesh, msgs) =
     (case LoadNode colladaXml nodeXml mesh of
        Inl e \<Rightarrow> Inl e
      | Inr (mesh', msgs') \<Rightarrow>
          LoadScene_nodes LoadNode colladaXml (NextSiblingElement ''node'' (nodeXml # siblings))
            (mesh', msgs @ msgs'))"
  by pat_completeness auto
termination
  by (relation "measure (\<lambda>(LoadNode, colladaXml, ptr, st). length ptr)")
    (auto simp: NextSiblingElement_def intro: le_imp_less_Suc length_dropWhile_le)

definition LoadScene ::
  "(XMLElement \<Rightarrow> XMLElement \<Rightarrow> ('s, 'r) Mesh \<Rightarrow> error + ('s, 'r) Mesh \<times> msg list)
     \<Rightarrow> XMLElement \<Rightarrow> ('s, 'r) Mesh \<Rightarrow> error + ('s, 'r) Mesh \<times> msg list" where
  "LoadScene LoadNode colladaXml mesh =
     (case FirstChildElement ''scene'' colladaXml of
        [] \<Rightarrow> Inl NullDeref
      | sceneXml # _ \<Rightarrow>
          (case FirstChildElement ''instance_visual_scene'' sceneXml of
             [] \<Rightarrow> Inl NullDeref
           | instXml # _ \<Rightarrow>
               (case Attribute instXml ''url'' of
                  None \<Rightarrow> Inl NullDeref
                | Some sceneURL \<Rightarrow>
                    (case ElementId colladaXml ''visual_scene'' sceneURL of
                       None \<Rightarrow>
                         Inr (mesh, [ignerr (''Unable to find visual_scene id ='' @ sceneURL)])
                     | Some visSceneXml \<Rightarrow>
                         LoadScene_nodes LoadNode colladaXml
                           (FirstChildElement ''node'' visSceneXml) (mesh, [])))))"

text \<open>
  \<^verbatim>\<open>Load\<close>, lines 99-152. \<open>loadResult\<close> is the \<^verbatim>\<open>XMLError\<close> that \<^verbatim>\<open>LoadFile\<close> returns
  (0 is \<^verbatim>\<open>XML_NO_ERROR\<close>) and \<open>xmlDoc\<close> is the document node, whose children are the
  top-level elements. Line 121 reads
  \<^verbatim>\<open>if (!xmlDoc.LoadFile(_filename.c_str()) != tinyxml2::XML_NO_ERROR)\<close>: the negation
  binds first, so the branch is taken exactly when \<^verbatim>\<open>LoadFile\<close> returned 0. A missing
  \<^verbatim>\<open><COLLADA>\<close> element is reported and then dereferenced by the version check
  (lines 124-129):
  \<^verbatim>\<open>
  if (std::string(this->dataPtr->colladaXml->Attribute("version")) != "1.4.0" &&
      std::string(this->dataPtr->colladaXml->Attribute("version")) != "1.4.1")
    ignerr << "Invalid collada file. Must be version 1.4.0 or 1.4.1\n";
  \<close>
\<close>

definition invalid_version :: msg where
  "invalid_version = ignerr ''Invalid collada file. Must be version 1.4.0 or 1.4.1''"

definition unable_to_load :: "string \<Rightarrow> msg" where
  "unable_to_load filename = ignerr (''Unable to load collada file['' @ filename @ '']'')"

definition unit_meter :: "(string \<Rightarrow> 'r) \<Rightarrow> XMLElement \<Rightarrow> 'r::one" where
  "unit_meter parseFloat colladaXml =
     (case FirstChildElement ''asset'' colladaXml of
        [] \<Rightarrow> 1
      | assetXml # _ \<Rightarrow>
          (case FirstChildElement ''unit'' assetXml of
             [] \<Rightarrow> 1
           | unitXml # _ \<Rightarrow>
               (case Attribute unitXml ''meter'' of
                  None \<Rightarrow> 1
                | Some meter \<Rightarrow> parseFloat meter)))"

definition Load ::
  "(XMLElement \<Rightarrow> XMLElement \<Rightarrow> ('s, 'r) Mesh \<Rightarrow> error + ('s, 'r) Mesh \<times> msg list)
     \<Rightarrow> (string \<Rightarrow> 'r) \<Rightarrow> string \<Rightarrow> nat \<Rightarrow> XMLElement
     \<Rightarrow> error + ('s, 'r::one) Mesh \<times> msg list" where
  "Load LoadNode parseFloat filename loadResult xmlDoc =
     (let log1 = (if loadResult = 0 then [unable_to_load filename] else []) in
      case FirstChildElement ''COLLADA'' xmlDoc of
        [] \<Rightarrow> Inl NullDeref
      | colladaXml # _ \<Rightarrow>
          (case Attribute colladaXml ''version'' of
             None \<Rightarrow> Inl NullDeref
           | Some version \<Rightarrow>
               let log2 = (if version \<noteq> ''1.4.0'' \<and> version \<noteq> ''1.4.1''
                           then log1 @ [invalid_version] else log1);
                   meter = unit_meter parseFloat colladaXml;
                   mesh = SetPath new_Mesh (dirname filename)
               in
               (case LoadScene LoadNode colladaXml mesh of
                  Inl e \<Rightarrow> Inl e
                | Inr (mesh', log3) \<Rightarrow> Inr (Scale mesh' meter, log2 @ log3))))"

text \<open>
  A document of version 1.5.0 with one scene node, and a node loader that adds the name
  of the node as a sub-mesh and prints nothing.
\<close>

definition collada_1_5 :: XMLElement where
  "collada_1_5 =
     XMLElement ''#document'' [] None
       [XMLElement ''COLLADA'' [(''version'', ''1.5.0'')] None
          [XMLElement ''library_visual_scenes'' [] None
             [XMLElement ''visual_scene'' [(''id'', ''Scene'')] None
                [XMLElement ''node'' [(''name'', ''Cube'')] None []]],
           XMLElement ''scene'' [] None
             [XMLElement ''instance_visual_scene'' [(''url'', ''#Scene'')] None []]]]"

definition name_node ::
  "XMLElement \<Rightarrow> XMLElement \<Rightarrow> (string, real) Mesh \<Rightarrow> error + (string, real) Mesh \<times> msg list" where
  "name_node colladaXml nodeXml mesh =
     Inr (mesh\<lparr>subMeshes := subMeshes mesh @ [the (Attribute nodeXml ''name'')]\<rparr>, [])"

section \<open>Proofs: the skin binder\<close>

lemma vw_inner_ok:
  assumes W: "W = jo + wo + 1"
    and rd: "\<forall>r<c. record_readable joints weights v jo wo (vi + r * W)"
  shows "vw_inner joints weights v jo wo i c (vi, att) =
     Inr (vi + c * W,
          att[i := att ! i @ map (\<lambda>r. skin_record joints weights v jo wo (vi + r * W)) [0..<c]])"
  using rd
proof (induction c arbitrary: vi att)
  case 0
  then show ?case by simp
next
  case (Suc c)
  let ?R = "skin_record joints weights v jo wo"
  let ?att = "AddVertNodeWeight att i (fst (?R vi)) (snd (?R vi))"
  have "record_readable joints weights v jo wo (vi + 0 * W)"
    using Suc.prems by blast
  then have r0: "record_readable joints weights v jo wo vi"
    by simp
  have sh: "vi + Suc r * W = vi + W + r * W" for r
    by simp
  have rest: "\<forall>r<c. record_readable joints weights v jo wo (vi + W + r * W)"
  proof (intro allI impI)
    fix r assume "r < c"
    then have "record_readable joints weights v jo wo (vi + Suc r * W)"
      using Suc.prems by blast
    then show "record_readable joints weights v jo wo (vi + W + r * W)"
      by (simp only: sh)
  qed
  have step: "vw_inner joints weights v jo wo i (Suc c) (vi, att) =
      vw_inner joints weights v jo wo i c (vi + W, ?att)"
    using r0 by (simp add: elem_at_def record_readable_def skin_record_def W)
  have "map (\<lambda>r. ?R (vi + W + r * W)) [0..<c] = map (\<lambda>r. ?R (vi + r * W)) (map Suc [0..<c])"
    by (simp only: map_map o_def sh)
  then have shift: "map (\<lambda>r. ?R (vi + W + r * W)) [0..<c] = map (\<lambda>r. ?R (vi + r * W)) [Suc 0..<Suc c]"
    by (simp only: map_Suc_upt)
  have up: "map (\<lambda>r. ?R (vi + r * W)) [0..<Suc c] = ?R vi # map (\<lambda>r. ?R (vi + r * W)) [Suc 0..<Suc c]"
    by (simp add: upt_rec del: upt_Suc)
  have upd: "?att[i := ?att ! i @ xs] = att[i := att ! i @ (?R vi # xs)]" for xs
    by (cases "i < length att") (simp_all add: AddVertNodeWeight_def list_update_beyond)
  have fin: "vi + W + c * W = vi + Suc c * W"
    by simp
  show ?case
    unfolding step Suc.IH[OF rest] shift up upd fin ..
qed

lemma vw_outer_ok:
  assumes W: "W = jo + wo + 1"
  shows "length att = i + length cs \<Longrightarrow>
    \<forall>r<sum_list cs. record_readable joints weights v jo wo (vi + r * W) \<Longrightarrow>
    \<exists>att'. vw_outer joints weights v jo wo cs i (vi, att) = Inr (vi + sum_list cs * W, att') \<and>
      length att' = length att \<and> (\<forall>k<i. att' ! k = att ! k) \<and>
      (\<forall>k<length cs. att' ! (i + k) = att ! (i + k) @
          map (\<lambda>r. skin_record joints weights v jo wo (vi + (sum_list (take k cs) + r) * W)) [0..<cs ! k])"
proof (induction cs arbitrary: i vi att)
  case Nil
  then show ?case by simp
next
  case (Cons c cs)
  let ?R = "skin_record joints weights v jo wo"
  let ?att = "att[i := att ! i @ map (\<lambda>r. ?R (vi + r * W)) [0..<c]]"
  have rd1: "\<forall>r<c. record_readable joints weights v jo wo (vi + r * W)"
    using Cons.prems(2) by simp
  have rd2: "\<forall>r<sum_list cs. record_readable joints weights v jo wo (vi + c * W + r * W)"
  proof (intro allI impI)
    fix r assume "r < sum_list cs"
    then have "c + r < sum_list (c # cs)" by simp
    then have "record_readable joints weights v jo wo (vi + (c + r) * W)"
      using Cons.prems(2) by blast
    then show "record_readable joints weights v jo wo (vi + c * W + r * W)"
      by (simp add: add_mult_distrib add.assoc)
  qed
  have len: "length ?att = Suc i + length cs"
    using Cons.prems(1) by simp
  from Cons.IH[OF len rd2] obtain att' where
    run: "vw_outer joints weights v jo wo cs (Suc i) (vi + c * W, ?att) = Inr (vi + c * W + sum_list cs * W, att')"
    and l: "length att' = length ?att"
    and before: "\<forall>k<Suc i. att' ! k = ?att ! k"
    and after: "\<forall>k<length cs. att' ! (Suc i + k) = ?att ! (Suc i + k) @
          map (\<lambda>r. ?R (vi + c * W + (sum_list (take k cs) + r) * W)) [0..<cs ! k]"
    by blast
  have res: "vw_outer joints weights v jo wo (c # cs) i (vi, att) = Inr (vi + sum_list (c # cs) * W, att')"
    by (simp add: vw_inner_ok[OF W rd1] run add_mult_distrib add.assoc)
  have ilt: "i < length att"
    using Cons.prems(1) by simp
  have P1: "\<forall>k<i. att' ! k = att ! k"
    using before by simp
  have P2: "\<forall>k<length (c # cs). att' ! (i + k) = att ! (i + k) @
          map (\<lambda>r. ?R (vi + (sum_list (take k (c # cs)) + r) * W)) [0..<(c # cs) ! k]"
  proof (intro allI impI)
    fix k assume k: "k < length (c # cs)"
    show "att' ! (i + k) = att ! (i + k) @
          map (\<lambda>r. ?R (vi + (sum_list (take k (c # cs)) + r) * W)) [0..<(c # cs) ! k]"
    proof (cases k)
      case 0
      then show ?thesis using before ilt by simp
    next
      case (Suc k')
      then have "k' < length cs" using k by simp
      then have "att' ! (Suc i + k') = ?att ! (Suc i + k') @
          map (\<lambda>r. ?R (vi + c * W + (sum_list (take k' cs) + r) * W)) [0..<cs ! k']"
        using after by blast
      then show ?thesis
        using Suc by (simp add: add_mult_distrib add.assoc)
    qed
  qed
  show ?case
    using res l P1 P2 by (intro exI[of _ att']) simp
qed

text \<open>
  C3. For a \<^verbatim>\<open><skin>\<close> whose \<^verbatim>\<open><vertex_weights>\<close> has JOINT offset \<open>j_off\<close> and WEIGHT
  offset \<open>w_off\<close>, every vertex \<open>i\<close> with count \<open>c = vcount[i]\<close> receives exactly \<open>c\<close>
  attachment records, the \<open>r\<close>-th being
  \<open>(joints[v[cursor + j_off]], weights[v[cursor + w_off]])\<close>, where the cursor starts at 0
  and advances by \<open>j_off + w_off + 1\<close> per record (so the \<open>r\<close>-th record of vertex \<open>i\<close> is
  read at cursor \<open>(vcount[0] + ... + vcount[i-1] + r) * (j_off + w_off + 1)\<close>). The
  hypothesis says that every record the loop reads lies inside \<open>v\<close>, \<open>joints\<close> and
  \<open>weights\<close>; under it the binder returns. The scenario S6 of the specification is
  the witness.
\<close>

theorem skin_binder_records:
  assumes "\<forall>r<sum_list vcount.
      record_readable joints weights v j_off w_off (r * (j_off + w_off + 1))"
  shows "\<exists>att. vertex_weights joints weights v j_off w_off vcount = Inr att \<and>
      length att = length vcount \<and>
      (\<forall>i<length vcount. att ! i =
          map (\<lambda>r. skin_record joints weights v j_off w_off
                 ((sum_list (take i vcount) + r) * (j_off + w_off + 1)))
            [0..<vcount ! i])"
proof -
  have len: "length (SetNumVertAttached (length vcount) :: ('a \<times> 'b) list list) = 0 + length vcount"
    by (simp add: SetNumVertAttached_def)
  have rd: "\<forall>r<sum_list vcount.
      record_readable joints weights v j_off w_off (0 + r * (j_off + w_off + 1))"
    using assms by simp
  from vw_outer_ok[OF refl len rd] obtain att where
    run: "vw_outer joints weights v j_off w_off vcount 0 (0, SetNumVertAttached (length vcount)) =
        Inr (0 + sum_list vcount * (j_off + w_off + 1), att)"
    and l: "length att = length (SetNumVertAttached (length vcount) :: ('a \<times> 'b) list list)"
    and each: "\<forall>k<length vcount. att ! (0 + k) =
        (SetNumVertAttached (length vcount) :: ('a \<times> 'b) list list) ! (0 + k) @
        map (\<lambda>r. skin_record joints weights v j_off w_off
               (0 + (sum_list (take k vcount) + r) * (j_off + w_off + 1))) [0..<vcount ! k]"
    by blast
  have "vertex_weights joints weights v j_off w_off vcount = Inr att"
    by (simp add: vertex_weights_def run)
  moreover have "length att = length vcount"
    using l by (simp add: SetNumVertAttached_def)
  moreover have "\<forall>i<length vcount. att ! i =
          map (\<lambda>r. skin_record joints weights v j_off w_off
                 ((sum_list (take i vcount) + r) * (j_off + w_off + 1)))
            [0..<vcount ! i]"
    using each by (simp add: SetNumVertAttached_def)
  ultimately show ?thesis by blast
qed

theorem skin_binder_records_witness:
  "record_readable [''hip'', ''knee''] [1/2, 1/2, 1/4, 3/4 :: real] [0, 0, 1, 1, 0, 2, 1, 3] 0 1 0 \<and>
   record_readable [''hip'', ''knee''] [1/2, 1/2, 1/4, 3/4 :: real] [0, 0, 1, 1, 0, 2, 1, 3] 0 1 2 \<and>
   record_readable [''hip'', ''knee''] [1/2, 1/2, 1/4, 3/4 :: real] [0, 0, 1, 1, 0, 2, 1, 3] 0 1 4 \<and>
   record_readable [''hip'', ''knee''] [1/2, 1/2, 1/4, 3/4 :: real] [0, 0, 1, 1, 0, 2, 1, 3] 0 1 6 \<and>
   vertex_weights [''hip'', ''knee''] [1/2, 1/2, 1/4, 3/4 :: real]
        [0, 0, 1, 1, 0, 2, 1, 3] 0 1 [2, 2] =
     Inr [[(''hip'', 1/2), (''knee'', 1/2)], [(''hip'', 1/4), (''knee'', 3/4)]]"
proof -
  have rd: "\<forall>r<sum_list [2, 2]. record_readable [''hip'', ''knee''] [1/2, 1/2, 1/4, 3/4 :: real]
        [0, 0, 1, 1, 0, 2, 1, 3] 0 1 (r * (0 + 1 + 1))"
    by (simp add: record_readable_def less_Suc_eq numeral_nat(2) eval_nat_numeral all_conj_distrib)
  from skin_binder_records[OF rd] obtain att where
    run: "vertex_weights [''hip'', ''knee''] [1/2, 1/2, 1/4, 3/4 :: real]
        [0, 0, 1, 1, 0, 2, 1, 3] 0 1 [2, 2] = Inr att"
    and len: "length att = length [2::nat, 2]"
    and each: "\<forall>i<length [2::nat, 2]. att ! i =
          map (\<lambda>r. skin_record [''hip'', ''knee''] [1/2, 1/2, 1/4, 3/4 :: real]
                 [0, 0, 1, 1, 0, 2, 1, 3] 0 1
                 ((sum_list (take i [2, 2]) + r) * (0 + 1 + 1)))
            [0..<[2, 2] ! i]"
    by blast
  have a0: "att ! 0 = [(''hip'', 1/2), (''knee'', 1/2)]"
    using each[rule_format, of 0] by (simp add: skin_record_def upt_rec)
  have a1: "att ! 1 = [(''hip'', 1/4), (''knee'', 3/4)]"
    using each[rule_format, of 1] by (simp add: skin_record_def upt_rec)
  have "att = [att ! 0, att ! 1]"
    using len by (cases att; cases "tl att"; cases "tl (tl att)") auto
  then have "att = [[(''hip'', 1/2), (''knee'', 1/2)], [(''hip'', 1/4), (''knee'', 3/4)]]"
    using a0 a1 by simp
  moreover
  have "record_readable [''hip'', ''knee''] [1/2, 1/2, 1/4, 3/4 :: real] [0, 0, 1, 1, 0, 2, 1, 3] 0 1 0 \<and>
   record_readable [''hip'', ''knee''] [1/2, 1/2, 1/4, 3/4 :: real] [0, 0, 1, 1, 0, 2, 1, 3] 0 1 2 \<and>
   record_readable [''hip'', ''knee''] [1/2, 1/2, 1/4, 3/4 :: real] [0, 0, 1, 1, 0, 2, 1, 3] 0 1 4 \<and>
   record_readable [''hip'', ''knee''] [1/2, 1/2, 1/4, 3/4 :: real] [0, 0, 1, 1, 0, 2, 1, 3] 0 1 6"
    by (simp add: record_readable_def eval_nat_numeral)
  ultimately show ?thesis using run by simp
qed

text \<open>The same scenario for arbitrary joint names and weights, by evaluation.\<close>

lemma skin_binder_S6:
  "vertex_weights [j0, j1] [w0, w1, w2, w3] [0, 0, 1, 1, 0, 2, 1, 3] 0 1 [2, 2] =
     Inr [[(j0, w0), (j1, w1)], [(j0, w2), (j1, w3)]]"
  by (simp add: vertex_weights_def SetNumVertAttached_def AddVertNodeWeight_def elem_at_def
      eval_nat_numeral)

section \<open>Proofs: the source parsers and the duplicate maps\<close>






















lemma push_value_shape:
  "\<exists>d' u'. push_value x (vs, d, u) = (vs @ [x], d', u')"
  by (cases "u x") (simp_all add: push_value_def)

text \<open>
  The values that \<^verbatim>\<open>LoadNormals\<close> appends: each complete triple, rotated and then
  normalised by the two operations of the vector library.
\<close>

lemma normals_loop_values:
  "\<exists>d u. normals_loop R N strs (vs, d0, u0) = (vs @ map (\<lambda>t. N (R t)) (triples strs), d, u)"
proof (induction strs arbitrary: vs d0 u0 rule: triples.induct)
  case (1 x y z strs)
  obtain d1 u1 where "push_value (N (R (x, y, z))) (vs, d0, u0) = (vs @ [N (R (x, y, z))], d1, u1)"
    using push_value_shape[of "N (R (x, y, z))" vs d0 u0] by blast
  with "1.IH"[of "vs @ [N (R (x, y, z))]" d1 u1] show ?case
    by simp
qed simp_all

lemma texcoords_loop_run:
  fixes vals :: "'r::{one,minus} list"
  assumes s: "0 < s" and rd: "\<forall>k<n. k * s + 1 < length vals"
  shows "k0 \<le> n \<Longrightarrow>
    \<exists>d' u'. texcoords_loop (int n * int s) (int s) vals (int k0 * int s) (vs, d, u) =
      Inr (vs @ map (\<lambda>k. (vals ! (k * s), 1 - vals ! (k * s + 1))) [k0..<n], d', u')"
proof (induction "n - k0" arbitrary: k0 vs d u)
  case 0
  then have "k0 = n" by simp
  then show ?case by (subst texcoords_loop.simps) simp
next
  case (Suc m)
  then have lt: "k0 < n" by simp
  then have r: "k0 * s + 1 < length vals"
    using rd by blast
  have i_lt: "int k0 * int s < int n * int s"
    using lt s by simp
  have "0 \<le> int (k0 * s)"
    by simp
  then have nn: "\<not> int k0 * int s < 0"
    by (simp add: not_less)
  have e1: "elem_at vals (nat (int k0 * int s)) = Inr (vals ! (k0 * s))"
    using r by (simp add: elem_at_def nat_mult_distrib)
  have "nat (int k0 * int s + 1) = k0 * s + 1"
    by (metis nat_int of_nat_1 of_nat_add of_nat_mult)
  then have e2: "elem_at vals (nat (int k0 * int s + 1)) = Inr (vals ! (k0 * s + 1))"
    using r by (simp add: elem_at_def)
  obtain d1 u1 where p: "push_value (vals ! (k0 * s), 1 - vals ! (k0 * s + 1)) (vs, d, u) =
      (vs @ [(vals ! (k0 * s), 1 - vals ! (k0 * s + 1))], d1, u1)"
    using push_value_shape[of "(vals ! (k0 * s), 1 - vals ! (k0 * s + 1))" vs d u] by blast
  have s0: "int s \<noteq> 0"
    using s by simp
  have nxt: "int k0 * int s + int s = int (Suc k0) * int s"
    by (simp add: algebra_simps)
  have m: "m = n - Suc k0" using Suc.hyps(2) by simp
  from Suc.hyps(1)[OF m, of "vs @ [(vals ! (k0 * s), 1 - vals ! (k0 * s + 1))]" d1 u1] lt
  obtain d' u' where rec: "texcoords_loop (int n * int s) (int s) vals (int (Suc k0) * int s)
      (vs @ [(vals ! (k0 * s), 1 - vals ! (k0 * s + 1))], d1, u1) =
      Inr ((vs @ [(vals ! (k0 * s), 1 - vals ! (k0 * s + 1))]) @
           map (\<lambda>k. (vals ! (k * s), 1 - vals ! (k * s + 1))) [Suc k0..<n], d', u')"
    by auto
  have "texcoords_loop (int n * int s) (int s) vals (int k0 * int s) (vs, d, u) =
      texcoords_loop (int n * int s) (int s) vals (int (Suc k0) * int s)
      (vs @ [(vals ! (k0 * s), 1 - vals ! (k0 * s + 1))], d1, u1)"
    by (subst texcoords_loop.simps)
      (simp only: i_lt nn e1 e2 s0 p nxt if_True if_False sum.case)
  then show ?case
    using rec lt by (simp add: upt_conv_Cons)
qed


text \<open>
  C7. For every texture-coordinate source only the first two components per stride are
  read, and each stored texture coordinate is \<open>(u, 1 - v)\<close>: for a source with a positive
  stride whose counts add up, the \<open>k\<close>-th stored pair is
  \<open>(values[k * stride], 1 - values[k * stride + 1])\<close>, appended to the caller's buffer.
  The witness is scenario S4: the input UV \<open>(0.25, 0.75)\<close> is stored as \<open>(0.25, 0.25)\<close>.
\<close>

theorem texcoord_v_flip:
  fixes vals :: "'r::{one,minus} list"
  assumes miss: "texcoordIds c ident = None"
    and fa: "doc_float_array doc ident = Some vals"
    and acc: "doc_accessor doc ident = Some (totCount, stride, texCount)"
    and cnt: "texCount * stride = totCount"
    and pos: "0 < stride" "0 \<le> texCount"
    and rd: "\<forall>k<nat texCount. k * nat stride + 1 < length vals"
  shows "\<exists>d c'. LoadTexCoords doc ident (vs0, d0) c =
      Inr ((vs0 @ map (\<lambda>k. (vals ! (k * nat stride), 1 - vals ! (k * nat stride + 1)))
                    [0..<nat texCount], d), c')"
proof (cases "totCount = 0")
  case True
  with cnt pos have "texCount = 0" by auto
  with True miss fa acc show ?thesis
    by (simp add: LoadTexCoords_def)
next
  case False
  have s: "0 < nat stride" using pos by simp
  have tot: "totCount = int (nat texCount) * int (nat stride)"
    using cnt pos by simp
  from texcoords_loop_run[OF s rd, of 0 vs0 d0 Map.empty]
  obtain d u where "texcoords_loop (int (nat texCount) * int (nat stride)) (int (nat stride)) vals 0
      (vs0, d0, Map.empty) =
    Inr (vs0 @ map (\<lambda>k. (vals ! (k * nat stride), 1 - vals ! (k * nat stride + 1)))
                 [0..<nat texCount], d, u)"
    by auto
  then have "texcoords_loop totCount stride vals 0 (vs0, d0, Map.empty) =
    Inr (vs0 @ map (\<lambda>k. (vals ! (k * nat stride), 1 - vals ! (k * nat stride + 1)))
                 [0..<nat texCount], d, u)"
    using tot pos by simp
  with False miss fa acc cnt show ?thesis
    by (simp add: LoadTexCoords_def)
qed

theorem texcoord_v_flip_witness:
  "\<exists>d c'. LoadTexCoords S4_document ''#uv'' ([], Map.empty)
        (empty_cache :: (real \<times> real \<times> real, real \<times> real) cache) =
      Inr (([(1/4, 1/4)], d), c')"
proof -
  have "\<forall>k<nat 1. k * nat 2 + 1 < length [1/4, 3/4 :: real]"
    by simp
  from texcoord_v_flip[of "empty_cache :: (real \<times> real \<times> real, real \<times> real) cache"
      "''#uv''" S4_document "[1/4, 3/4]" 2 2 1, OF _ _ _ _ _ _ this, of "[]" Map.empty]
  show ?thesis
    by (simp add: S4_document_def empty_cache_def)
qed

text \<open>
  \<^verbatim>\<open>LoadTexCoords\<close> reaches its loop only with a stride different from zero: the value
  \<open>Diverges\<close> is never returned.
\<close>

lemma texcoords_loop_advances:
  "stride \<noteq> 0 \<Longrightarrow> texcoords_loop totCount stride vals i st \<noteq> Inl Diverges"
proof (induction totCount stride vals i st rule: texcoords_loop.induct)
  case (1 totCount stride vals i st)
  show ?case
  proof (cases "i < totCount \<and> \<not> i < 0")
    case False
    then show ?thesis
      by (subst texcoords_loop.simps) auto
  next
    case True
    show ?thesis
    proof (cases "elem_at vals (nat i)")
      case (Inl e)
      then show ?thesis
        using True by (subst texcoords_loop.simps) (auto simp: elem_at_def split: if_splits)
    next
      case u: (Inr u)
      show ?thesis
      proof (cases "elem_at vals (nat (i + 1))")
        case (Inl e)
        then show ?thesis
          using True u by (subst texcoords_loop.simps) (auto simp: elem_at_def split: if_splits)
      next
        case v: (Inr v)
        from "1.IH"[OF _ _ u v "1.prems" "1.prems"] True
        have "texcoords_loop totCount stride vals (i + stride) (push_value (u, 1 - v) st) \<noteq> Inl Diverges"
          by simp
        then show ?thesis
          using True u v "1.prems" by (subst texcoords_loop.simps) simp
      qed
    qed
  qed
qed

lemma LoadTexCoords_returns:
  "LoadTexCoords doc ident buf c \<noteq> Inl Diverges"
proof -
  have "texcoords_loop totCount stride vals 0 st \<noteq> Inl Diverges"
    if "texCount * stride = totCount" "totCount \<noteq> 0" for totCount stride texCount vals
      and st :: "('a \<times> 'a) list \<times> dupmap \<times> ('a \<times> 'a \<rightharpoonup> nat)"
    using that by (intro texcoords_loop_advances) auto
  then show ?thesis
    by (auto simp: LoadTexCoords_def split: option.splits sum.splits prod.splits)
qed

section \<open>Proofs: the inputs of \<^verbatim>\<open><triangles>\<close>\<close>

lemma map_of_assign:
  "map_of (assign m k v) k' = (if k' = k then Some v else map_of m k')"
  by (induction m k v rule: assign.induct) auto

lemma LoadTriangles_input_grows:
  assumes "LoadTriangles_input doc T R N inp p = Inr p'"
  shows "otherSemantics p \<le> otherSemantics p'" and "hasTexcoords p \<longrightarrow> hasTexcoords p'"
    and "fst inp = ''TEXCOORD'' \<longrightarrow> hasTexcoords p'"
  using assms
  by (auto simp: LoadTriangles_input_def load_VERTEX_def load_NORMAL_def load_TEXCOORD_def
      unsupported_semantic_def Let_def split: prod.splits sum.splits if_splits)

lemma LoadTriangles_inputs_grows:
  "LoadTriangles_inputs doc T R N inps p = Inr p' \<Longrightarrow>
     otherSemantics p \<le> otherSemantics p' \<and> (hasTexcoords p \<longrightarrow> hasTexcoords p') \<and>
     ((\<exists>inp\<in>set inps. fst inp = ''TEXCOORD'') \<longrightarrow> hasTexcoords p')"
proof (induction inps arbitrary: p)
  case Nil
  then show ?case by simp
next
  case (Cons inp inps)
  from Cons.prems obtain q where
    q: "LoadTriangles_input doc T R N inp p = Inr q"
    and rest: "LoadTriangles_inputs doc T R N inps q = Inr p'"
    by (auto split: sum.splits)
  from LoadTriangles_input_grows[OF q] Cons.IH[OF rest]
  show ?case by auto
qed

lemma LoadTriangles_inputs_append:
  "LoadTriangles_inputs doc T R N (xs @ ys) p =
     (case LoadTriangles_inputs doc T R N xs p of
        Inl e \<Rightarrow> Inl e
      | Inr p' \<Rightarrow> LoadTriangles_inputs doc T R N ys p')"
  by (induction xs arbitrary: p) (auto split: sum.splits)

text \<open>
  C10. In the \<^verbatim>\<open><triangles>\<close> loader only the first TEXCOORD input is honoured. A later
  \<^verbatim>\<open><input>\<close> with semantic TEXCOORD (one that follows a TEXCOORD input) is treated like
  an unsupported semantic: its source is not loaded (the texture-coordinate buffer, its
  duplicate map and the caches stay as they are), it takes the next free slot
  \<open>otherSemantics\<close> of the per-corner index tuple, a warning is emitted, and the slot of
  the first TEXCOORD input is unchanged.
\<close>

theorem later_texcoord_input_ignored:
  assumes run: "LoadTriangles_inputs doc T R N inps (new_primitive c) = Inr p"
    and first: "(''TEXCOORD'', source0, offset0) \<in> set inps"
  shows "LoadTriangles_inputs doc T R N (inps @ [(''TEXCOORD'', source, offset)]) (new_primitive c) =
       Inr (p\<lparr>inputs := assign (inputs p) (otherSemantics p) offset,
              otherSemantics := otherSemantics p + 1,
              warnings := warnings p @ [''TEXCOORD''],
              offsetSize := offsetSize p + 1\<rparr>) \<and>
     map_of (assign (inputs p) (otherSemantics p) offset) (otherSemantics p) = Some offset \<and>
     input_offset (assign (inputs p) (otherSemantics p) offset) TEXCOORD =
       input_offset (inputs p) TEXCOORD"
proof -
  from LoadTriangles_inputs_grows[OF run] first
  have ht: "hasTexcoords p" and os: "TEXCOORD < otherSemantics p"
    by (force simp: new_primitive_def)+
  have "LoadTriangles_input doc T R N (''TEXCOORD'', source, offset) p =
       Inr (p\<lparr>inputs := assign (inputs p) (otherSemantics p) offset,
              otherSemantics := otherSemantics p + 1,
              warnings := warnings p @ [''TEXCOORD''],
              offsetSize := offsetSize p + 1\<rparr>)"
    using ht by (simp add: LoadTriangles_input_def unsupported_semantic_def)
  then show ?thesis
    using os by (simp add: LoadTriangles_inputs_append run map_of_assign input_offset_def)
qed

theorem later_texcoord_input_ignored_witness:
  "\<exists>p. LoadTriangles_inputs S4_document (\<lambda>v. v) (\<lambda>v. v) (\<lambda>v. v)
          [(''TEXCOORD'', ''#uv'', 0)]
          (new_primitive (empty_cache :: (real \<times> real \<times> real, real \<times> real) cache)) = Inr p \<and>
        texcoords p = [(1/4, 1/4)] \<and>
        LoadTriangles_inputs S4_document (\<lambda>v. v) (\<lambda>v. v) (\<lambda>v. v)
          [(''TEXCOORD'', ''#uv'', 0), (''TEXCOORD'', ''#uv2'', 1)] (new_primitive empty_cache) =
          Inr (p\<lparr>inputs := [(2, 0), (3, 1)], otherSemantics := 4,
                 warnings := [''TEXCOORD''], offsetSize := 2\<rparr>)"
proof -
  obtain p :: "(real \<times> real \<times> real, real) primitive" where
    run: "LoadTriangles_inputs S4_document (\<lambda>v. v) (\<lambda>v. v) (\<lambda>v. v)
          [(''TEXCOORD'', ''#uv'', 0)] (new_primitive empty_cache) = Inr p"
    and p: "texcoords p = [(1/4, 1/4)]" "inputs p = [(2, 0)]" "otherSemantics p = 3"
      "warnings p = []" "offsetSize p = 1"
    by (simp add: LoadTriangles_input_def load_TEXCOORD_def LoadTexCoords_def S4_document_def
        new_primitive_def empty_cache_def texcoords_loop.simps push_value_def elem_at_def
        TEXCOORD_def)
  have "(''TEXCOORD'', ''#uv'', 0::nat) \<in> set [(''TEXCOORD'', ''#uv'', 0)]"
    by simp
  from later_texcoord_input_ignored[OF run this, of "''#uv2''" 1]
  have "LoadTriangles_inputs S4_document (\<lambda>v. v) (\<lambda>v. v) (\<lambda>v. v)
          [(''TEXCOORD'', ''#uv'', 0), (''TEXCOORD'', ''#uv2'', 1)] (new_primitive empty_cache) =
          Inr (p\<lparr>inputs := [(2, 0), (3, 1)], otherSemantics := 4,
                 warnings := [''TEXCOORD''], offsetSize := 2\<rparr>)"
    by (simp add: p)
  then show ?thesis
    using run p by blast
qed

section \<open>Proofs: the geometry weaver\<close>

lemma for_each_append:
  "for_each f (xs @ ys) st =
     (case for_each f xs st of Inl e \<Rightarrow> Inl e | Inr st' \<Rightarrow> for_each f ys st')"
  by (induction xs arbitrary: st) (auto split: sum.splits)

lemma for_each_concat:
  "for_each (\<lambda>k. for_each f (g k)) ks st = for_each f (concat (map g ks)) st"
  by (induction ks arbitrary: st) (auto simp: for_each_append split: sum.splits)

lemma for_each_cong_list:
  "(\<And>x st. x \<in> set xs \<Longrightarrow> f x st = g x st) \<Longrightarrow> for_each f xs st = for_each g xs st"
  by (induction xs arbitrary: st) (auto split: sum.splits)

lemma read_values_corner:
  assumes "(m + 1) * width \<le> length strs"
  shows "read_values strs (m * width) width = Inr (polygon_corner width strs m)"
  using assms by (simp add: read_values_def polygon_corner_def)

lemma polylist_triangle:
  assumes k: "2 \<le> k" "k < n" and len: "length (inputs p) * n \<le> length strs"
  shows "for_each (polylist_corner skeleton p strs k) [0..<3] st =
     for_each (weave_corner Polylist skeleton p)
       [polygon_corner (length (inputs p)) strs 0,
        polygon_corner (length (inputs p)) strs (k - 1),
        polygon_corner (length (inputs p)) strs k] st"
proof -
  let ?W = "length (inputs p)"
  have up: "[0..<3] = [0, 1, 2]"
    by (simp add: upt_rec)
  have "(k + 1) * ?W \<le> n * ?W"
    using k by (intro mult_le_mono1) simp
  then have kk: "(k + 1) * ?W \<le> length strs"
    using len by (simp add: mult.commute)
  have "(k - 1 + 1) * ?W \<le> (k + 1) * ?W"
    by (intro mult_le_mono1) simp
  from this kk have k1: "(k - 1 + 1) * ?W \<le> length strs"
    by (rule le_trans)
  have "(0 + 1) * ?W \<le> (k + 1) * ?W"
    by (intro mult_le_mono1) simp
  from this kk have k0: "(0 + 1) * ?W \<le> length strs"
    by (rule le_trans)
  have c0: "polylist_corner skeleton p strs k 0 = weave_corner Polylist skeleton p (polygon_corner ?W strs 0)"
    using read_values_corner[OF k0] by (simp add: polylist_corner_def triangle_index_def fun_eq_iff)
  have c1: "polylist_corner skeleton p strs k (Suc 0) =
      weave_corner Polylist skeleton p (polygon_corner ?W strs (k - 1))"
    using read_values_corner[OF k1] by (simp add: polylist_corner_def triangle_index_def fun_eq_iff)
  have c2: "polylist_corner skeleton p strs k 2 = weave_corner Polylist skeleton p (polygon_corner ?W strs k)"
    using read_values_corner[OF kk] by (simp add: polylist_corner_def triangle_index_def fun_eq_iff)
  show ?thesis
    unfolding up by (simp add: c0 c1 c2 split: sum.splits)
qed

lemma polylist_polygon:
  assumes "length (inputs p) * n \<le> length strs"
  shows "for_each (\<lambda>k. for_each (polylist_corner skeleton p strs k) [0..<3]) [2..<n] st =
     for_each (weave_corner Polylist skeleton p) (fan_triangles (length (inputs p)) strs n) st"
proof -
  have "for_each (\<lambda>k. for_each (polylist_corner skeleton p strs k) [0..<3]) [2..<n] st =
      for_each (\<lambda>k. for_each (weave_corner Polylist skeleton p)
         [polygon_corner (length (inputs p)) strs 0,
          polygon_corner (length (inputs p)) strs (k - 1),
          polygon_corner (length (inputs p)) strs k]) [2..<n] st"
    by (rule for_each_cong_list) (simp add: polylist_triangle[OF _ _ assms])
  then show ?thesis
    by (simp add: for_each_concat fan_triangles_def)
qed

lemma polylist_loop_refines_fan:
  assumes "length (inputs p) * sum_list vcounts \<le> length strs"
  shows "polylist_loop skeleton p vcounts strs st =
     for_each (weave_corner Polylist skeleton p)
       (polylist_corners (length (inputs p)) vcounts strs) st"
  using assms
proof (induction vcounts arbitrary: strs st)
  case Nil
  then show ?case by simp
next
  case (Cons n vcounts)
  let ?W = "length (inputs p)"
  have n: "?W * n \<le> length strs"
    using Cons.prems by (simp add: distrib_left)
  have rest: "?W * sum_list vcounts \<le> length (drop (?W * n) strs)"
    using Cons.prems by (simp add: distrib_left)
  show ?case
    by (simp add: polylist_polygon[OF n] Cons.IH[OF rest] for_each_append split: sum.splits)
qed




subsection \<open>What the \<^verbatim>\<open><input>\<close> loop records\<close>




subsection \<open>The branch that adds a vertex\<close>

lemma copy_attachments_keeps:
  "vertices (copy_attachments skel i sm) = vertices sm \<and>
   indices (copy_attachments skel i sm) = indices sm"
proof -
  have "vertices (foldl (\<lambda>sm' (jn, w). AddNodeAssignment sm' (VertexCount sm' - 1) jn w) sm ws) =
        vertices sm \<and>
      indices (foldl (\<lambda>sm' (jn, w). AddNodeAssignment sm' (VertexCount sm' - 1) jn w) sm ws) =
        indices sm" for ws
    by (induction ws arbitrary: sm) (auto simp: AddNodeAssignment_def)
  then show ?thesis
    by (simp add: copy_attachments_def)
qed

lemma skin_vertex_keeps:
  assumes "skin_vertex path skeleton vals daeVertIndex newVertIndex sm = Inr sm'"
  shows "length (vertices sm') = length (vertices sm) \<and> indices sm' = indices sm"
proof (cases skeleton)
  case None
  with assms show ?thesis by (simp add: skin_vertex_def)
next
  case (Some skel)
  show ?thesis
  proof (cases path)
    case Triangles
    with Some assms obtain i where "sm' = copy_attachments skel i sm"
      by (auto simp: skin_vertex_def split: sum.splits)
    then show ?thesis by (simp add: copy_attachments_keeps)
  next
    case Polylist
    with Some assms have "sm' = copy_attachments skel daeVertIndex
        (SetVertex sm newVertIndex (BindShapeTransform skel (Vertex sm newVertIndex)))"
      by (simp add: skin_vertex_def)
    then show ?thesis by (simp add: copy_attachments_keeps SetVertex_def)
  qed
qed

lemma emit_position_new_vertex:
  assumes "emit_position path skeleton p vals daeVertIndex subMesh = Inr (sm, newVertIndex)"
  shows "newVertIndex = VertexCount subMesh \<and> VertexCount sm = VertexCount subMesh + 1 \<and>
     indices sm = indices subMesh @ [VertexCount subMesh]"
proof -
  from assms obtain v where v: "elem_at (verts p) daeVertIndex = Inr v"
    by (cases "elem_at (verts p) daeVertIndex") (simp_all add: emit_position_def)
  define sm2 where "sm2 = AddIndex (AddVertex subMesh v) (VertexCount (AddVertex subMesh v) - 1)"
  define r where "r = (if combinedVertNorms p then
      (case elem_at (norms p) daeVertIndex of Inl e \<Rightarrow> Inl e | Inr n \<Rightarrow> Inr (AddNormal sm2 n))
    else Inr sm2)"
  have new: "VertexCount (AddVertex subMesh v) - 1 = VertexCount subMesh"
    by (simp add: VertexCount_def AddVertex_def)
  have run:
    "(case r of Inl e \<Rightarrow> Inl e
      | Inr sm3 \<Rightarrow>
          (case skin_vertex path skeleton vals daeVertIndex
                  (VertexCount (AddVertex subMesh v) - 1) sm3 of
             Inl e \<Rightarrow> Inl e
           | Inr sm4 \<Rightarrow> Inr (sm4, VertexCount (AddVertex subMesh v) - 1))) =
       Inr (sm, newVertIndex)"
    using assms unfolding emit_position_def Let_def v r_def sm2_def
    by (simp only: sum.case)
  note run' = run[unfolded new]
  from run' obtain sm3 where r: "r = Inr sm3"
    by (cases r) simp_all
  with run' obtain sm4 where
    sk: "skin_vertex path skeleton vals daeVertIndex (VertexCount subMesh) sm3 = Inr sm4"
    by (cases "skin_vertex path skeleton vals daeVertIndex (VertexCount subMesh) sm3") simp_all
  with run' r have res: "sm = sm4" "newVertIndex = VertexCount subMesh"
    by simp_all
  have s2: "vertices sm2 = vertices subMesh @ [v]"
      "indices sm2 = indices subMesh @ [VertexCount subMesh]"
    by (simp_all add: sm2_def AddIndex_def AddVertex_def VertexCount_def)
  have s3: "vertices sm3 = vertices sm2 \<and> indices sm3 = indices sm2"
  proof (cases "combinedVertNorms p")
    case True
    with r obtain n where "sm3 = AddNormal sm2 n"
      by (cases "elem_at (norms p) daeVertIndex") (auto simp: r_def)
    then show ?thesis by (simp add: AddNormal_def)
  next
    case False
    with r show ?thesis by (simp add: r_def)
  qed
  from skin_vertex_keeps[OF sk] s2 s3 res show ?thesis
    by (simp add: VertexCount_def)
qed

lemma emit_normal_keeps:
  assumes "emit_normal p vals sm = Inr (sm', n)"
  shows "vertices sm' = vertices sm \<and> indices sm' = indices sm \<and>
     (case n of Some k \<Rightarrow> hasNormals p \<and> remappedNormalIndex p vals = Inr k
              | None \<Rightarrow> \<not> hasNormals p)"
  using assms
  by (auto simp: emit_normal_def AddNormal_def split: if_splits sum.splits)

lemma emit_texcoord_keeps:
  assumes "emit_texcoord p vals sm = Inr (sm', t)"
  shows "vertices sm' = vertices sm \<and> indices sm' = indices sm \<and>
     (case t of Some k \<Rightarrow> hasTexcoords p \<and> remappedTexcoordIndex p vals = Inr k
              | None \<Rightarrow> \<not> hasTexcoords p)"
  using assms
  by (auto simp: emit_texcoord_def AddTexCoord_def split: if_splits sum.splits)

lemma add_vertex_new_entry:
  assumes hv: "hasVertices p"
    and run: "add_vertex path skeleton p vals daeVertIndex (vertexIndexMap, subMesh) = Inr (vim', sm')"
  shows "\<exists>n t.
      VertexCount sm' = VertexCount subMesh + 1 \<and>
      indices sm' = indices subMesh @ [VertexCount subMesh] \<and>
      vim' = vertexIndexMap(daeVertIndex \<mapsto>
        [\<lparr>vertexIndex = daeVertIndex, normalIndex = n, texcoordIndex = t,
          mappedIndex = VertexCount subMesh\<rparr>]) \<and>
      (case n of Some k \<Rightarrow> hasNormals p \<and> remappedNormalIndex p vals = Inr k
               | None \<Rightarrow> \<not> hasNormals p) \<and>
      (case t of Some k \<Rightarrow> hasTexcoords p \<and> remappedTexcoordIndex p vals = Inr k
               | None \<Rightarrow> \<not> hasTexcoords p)"
proof -
  from run hv obtain sm1 newVertIndex sm2 n t where
    e1: "emit_position path skeleton p vals daeVertIndex subMesh = Inr (sm1, newVertIndex)"
    and e2: "emit_normal p vals sm1 = Inr (sm2, n)"
    and e3: "emit_texcoord p vals sm2 = Inr (sm', t)"
    and vim': "vim' = vertexIndexMap(daeVertIndex \<mapsto>
        [\<lparr>vertexIndex = daeVertIndex, normalIndex = n, texcoordIndex = t,
          mappedIndex = newVertIndex\<rparr>])"
    by (auto simp: add_vertex_def split: sum.splits prod.splits)
  from emit_position_new_vertex[OF e1] emit_normal_keeps[OF e2] emit_texcoord_keeps[OF e3] vim'
  show ?thesis
    by (auto simp: VertexCount_def)
qed

subsection \<open>One corner of a polylist, and a sequence of corners\<close>












subsection \<open>Numbering by position\<close>





subsection \<open>The triangles of a polylist\<close>

text \<open>
  The number of slots that the \<^verbatim>\<open><input>\<close> loop of \<^verbatim>\<open>LoadPolylist\<close> records: an
  input takes a new slot unless it repeats VERTEX, NORMAL or TEXCOORD.
\<close>

lemma length_assign:
  "length (assign m k v) = (if k \<in> fst ` set m then length m else Suc (length m))"
proof (induction m)
  case Nil
  show ?case by simp
next
  case (Cons a m)
  obtain k' v' where a: "a = (k', v')"
    by (cases a)
  show ?case
    using Cons by (cases "k' = k") (simp_all add: a)
qed

lemma keys_assign: "fst ` set (assign m k v) = insert k (fst ` set m)"
proof (induction m)
  case Nil
  show ?case by simp
next
  case (Cons a m)
  obtain k' v' where a: "a = (k', v')"
    by (cases a)
  show ?case
    using Cons by (cases "k' = k") (simp_all add: a insert_commute)
qed

lemma LoadPolylist_input_slot:
  assumes step: "LoadPolylist_input doc T R Normalize (semantic, source, offset) p0 = Inr p1"
    and keys: "\<forall>k \<in> fst ` set (inputs p0). k < otherSemantics p0" "3 \<le> otherSemantics p0"
    and fresh: "semantic = ''VERTEX'' \<longrightarrow> VERTEX \<notin> fst ` set (inputs p0)"
      "semantic = ''NORMAL'' \<longrightarrow> NORMAL \<notin> fst ` set (inputs p0)"
      "semantic = ''TEXCOORD'' \<longrightarrow> TEXCOORD \<notin> fst ` set (inputs p0)"
  shows "length (inputs p1) = Suc (length (inputs p0)) \<and>
     (\<forall>k \<in> fst ` set (inputs p1). k < otherSemantics p1) \<and> 3 \<le> otherSemantics p1 \<and>
     (VERTEX \<in> fst ` set (inputs p1) \<longleftrightarrow>
        VERTEX \<in> fst ` set (inputs p0) \<or> semantic = ''VERTEX'') \<and>
     (NORMAL \<in> fst ` set (inputs p1) \<longleftrightarrow>
        NORMAL \<in> fst ` set (inputs p0) \<or> semantic = ''NORMAL'') \<and>
     (TEXCOORD \<in> fst ` set (inputs p1) \<longleftrightarrow>
        TEXCOORD \<in> fst ` set (inputs p0) \<or> semantic = ''TEXCOORD'')"
proof -
  consider (v) "semantic = ''VERTEX''" | (n) "semantic = ''NORMAL''"
    | (t) "semantic = ''TEXCOORD''"
    | (o) "semantic \<noteq> ''VERTEX''" "semantic \<noteq> ''NORMAL''" "semantic \<noteq> ''TEXCOORD''"
    by blast
  then show ?thesis
  proof cases
    case v
    with step obtain vs pd ns nd c' where
      "p1 = p0\<lparr>verts := vs, positionDupMap := pd, norms := ns, normalDupMap := nd,
                 dataPtr := c',
                 combinedVertNorms := (if length (norms p0) < length ns then True
                                       else combinedVertNorms p0),
                 inputs := assign (inputs p0) VERTEX offset,
                 hasVertices := True\<rparr>"
      by (auto simp: LoadPolylist_input_def load_VERTEX_def Let_def split: sum.splits)
    with v keys fresh show ?thesis
      by (auto simp: length_assign keys_assign VERTEX_def NORMAL_def TEXCOORD_def)
  next
    case n
    with step have "inputs p1 = assign (inputs p0) NORMAL offset"
        "otherSemantics p1 = otherSemantics p0"
      by (auto simp: LoadPolylist_input_def load_NORMAL_def split: prod.splits)
    with n keys fresh show ?thesis
      by (auto simp: length_assign keys_assign VERTEX_def NORMAL_def TEXCOORD_def)
  next
    case t
    with step have "inputs p1 = assign (inputs p0) TEXCOORD offset"
        "otherSemantics p1 = otherSemantics p0"
      by (auto simp: LoadPolylist_input_def load_TEXCOORD_def split: sum.splits)
    with t keys fresh show ?thesis
      by (auto simp: length_assign keys_assign VERTEX_def NORMAL_def TEXCOORD_def)
  next
    case o
    with step have "inputs p1 = assign (inputs p0) (otherSemantics p0) offset"
        "otherSemantics p1 = otherSemantics p0 + 1"
      by (auto simp: LoadPolylist_input_def unsupported_semantic_def)
    with o keys fresh show ?thesis
      by (auto simp: length_assign keys_assign VERTEX_def NORMAL_def TEXCOORD_def)
  qed
qed

lemma LoadPolylist_inputs_slots:
  assumes "LoadPolylist_inputs doc T R Normalize inps p0 = Inr p"
    and "\<forall>k \<in> fst ` set (inputs p0). k < otherSemantics p0" "3 \<le> otherSemantics p0"
    and "VERTEX \<in> fst ` set (inputs p0) \<longrightarrow> ''VERTEX'' \<notin> fst ` set inps"
      "NORMAL \<in> fst ` set (inputs p0) \<longrightarrow> ''NORMAL'' \<notin> fst ` set inps"
      "TEXCOORD \<in> fst ` set (inputs p0) \<longrightarrow> ''TEXCOORD'' \<notin> fst ` set inps"
    and "distinct (filter (\<lambda>s. s \<in> {''VERTEX'', ''NORMAL'', ''TEXCOORD''}) (map fst inps))"
  shows "length (inputs p) = length (inputs p0) + length inps"
  using assms
proof (induction inps arbitrary: p0)
  case Nil
  then show ?case by simp
next
  case (Cons inp inps)
  obtain semantic source offset where inp: "inp = (semantic, source, offset)"
    by (cases inp) auto
  from Cons.prems(1) obtain p1 where
    step: "LoadPolylist_input doc T R Normalize (semantic, source, offset) p0 = Inr p1"
    and rest: "LoadPolylist_inputs doc T R Normalize inps p1 = Inr p"
    by (auto simp: inp split: sum.splits)
  have fresh: "semantic = ''VERTEX'' \<longrightarrow> VERTEX \<notin> fst ` set (inputs p0)"
      "semantic = ''NORMAL'' \<longrightarrow> NORMAL \<notin> fst ` set (inputs p0)"
      "semantic = ''TEXCOORD'' \<longrightarrow> TEXCOORD \<notin> fst ` set (inputs p0)"
    using Cons.prems(4-6) by (auto simp: inp)
  note s = LoadPolylist_input_slot[OF step Cons.prems(2,3) fresh]
  from s have k1: "\<forall>k \<in> fst ` set (inputs p1). k < otherSemantics p1" "3 \<le> otherSemantics p1"
    by simp_all
  have d: "distinct (filter (\<lambda>s. s \<in> {''VERTEX'', ''NORMAL'', ''TEXCOORD''}) (map fst inps))"
    using Cons.prems(7) by (auto simp: inp split: if_splits)
  have f1: "VERTEX \<in> fst ` set (inputs p1) \<longrightarrow> ''VERTEX'' \<notin> fst ` set inps"
      "NORMAL \<in> fst ` set (inputs p1) \<longrightarrow> ''NORMAL'' \<notin> fst ` set inps"
      "TEXCOORD \<in> fst ` set (inputs p1) \<longrightarrow> ''TEXCOORD'' \<notin> fst ` set inps"
    using s Cons.prems(4-7) by (auto simp: inp split: if_splits)
  from Cons.IH[OF rest k1 f1 d] s show ?case
    by simp
qed

text \<open>
  \<^verbatim>\<open>inputs.size()\<close> is the tuple width when the \<^verbatim>\<open><input>\<close> elements have pairwise
  distinct offsets and none of VERTEX, NORMAL and TEXCOORD occurs twice.
\<close>

lemma distinct_inputs_tuple_width:
  assumes "LoadPolylist_inputs doc T R Normalize inps (new_primitive c) = Inr p"
    and "distinct (map (\<lambda>(semantic, source, offset). offset) inps)"
    and "distinct (filter (\<lambda>s. s \<in> {''VERTEX'', ''NORMAL'', ''TEXCOORD''}) (map fst inps))"
  shows "length (inputs p) = tuple_width inps"
proof -
  have "length (inputs p) = length (inputs (new_primitive c)) + length inps"
    by (rule LoadPolylist_inputs_slots[OF assms(1) _ _ _ _ _ assms(3)])
      (simp_all add: new_primitive_def TEXCOORD_def)
  moreover have "tuple_width inps = length inps"
    using assms(2) by (simp add: tuple_width_def distinct_remdups_id)
  ultimately show ?thesis
    by (simp add: new_primitive_def)
qed

lemmas eval_load = new_primitive_def empty_cache_def LoadPolylist_input_def
  load_VERTEX_def load_NORMAL_def load_TEXCOORD_def LoadVertices_def LoadPositions_def
  LoadNormals_def LoadTexCoords_def texcoords_loop.simps push_value_def elem_at_def
  VERTEX_def NORMAL_def TEXCOORD_def

lemmas eval_corner = weave_corner_def add_vertex_def emit_position_def emit_normal_def
  emit_texcoord_def skin_vertex_def remappedNormalIndex_def remappedTexcoordIndex_def
  elem_at_def input_offset_def remap_def VERTEX_def NORMAL_def TEXCOORD_def
  new_SubMesh_def AddVertex_def AddIndex_def AddNormal_def AddTexCoord_def VertexCount_def




text \<open>
  With the two TEXCOORD inputs in the order of their offsets the second one leaves
  \<^verbatim>\<open>inputs[TEXCOORD] = 2\<close>, and reading \<^verbatim>\<open>values[inputs[TEXCOORD]]\<close> in an array of
  \<^verbatim>\<open>inputs.size() = 2\<close> elements is out of range.
\<close>

lemma polylist_two_texcoords_out_of_range:
  "\<exists>p. LoadPolylist_inputs quad_document (\<lambda>v. v) (\<lambda>v. v) (\<lambda>v. v)
          [(''VERTEX'', ''#quad-vertices'', 0), (''TEXCOORD'', ''#uvA'', 1),
           (''TEXCOORD'', ''#uvB'', 2)]
          (new_primitive empty_cache) = Inr (p :: (real \<times> real \<times> real, real) primitive) \<and>
        length (inputs p) = 2 \<and>
        polylist_loop (None :: (real \<times> real \<times> real, string, real) Skeleton option) p [4]
          two_uv_quad (Map.empty, new_SubMesh) = Inl OutOfRange"
proof -
  obtain p :: "(real \<times> real \<times> real, real) primitive" where
    lp: "LoadPolylist_inputs quad_document (\<lambda>v. v) (\<lambda>v. v) (\<lambda>v. v)
          [(''VERTEX'', ''#quad-vertices'', 0), (''TEXCOORD'', ''#uvA'', 1),
           (''TEXCOORD'', ''#uvB'', 2)]
       (new_primitive empty_cache) = Inr p"
    and p: "inputs p = [(0, 0), (2, 2)]" "hasVertices p" "\<not> hasNormals p" "hasTexcoords p"
      "\<not> combinedVertNorms p" "verts p = [(0, 0, 0), (1, 0, 0), (1, 1, 0), (0, 1, 0)]"
      "positionDupMap p = Map.empty"
    by (simp add: quad_document_def eval_load)
  have "polylist_loop (None :: (real \<times> real \<times> real, string, real) Skeleton option) p [4]
          two_uv_quad (Map.empty, new_SubMesh) = Inl OutOfRange"
    by (simp add: p two_uv_quad_def upt_rec polylist_corner_def read_values_def
        triangle_index_def eval_corner)
  with lp p(1) show ?thesis
    by auto
qed

text \<open>
  Inputs that share an offset take a slot each: with VERTEX and TEXCOORD both at offset
  0 the tuple width is 1 and \<^verbatim>\<open>inputs.size()\<close> is 2, and the loop reads the quad
  \<open>0 1 2 3\<close> in pairs, past the end of the stream.
\<close>

lemma polylist_shared_offset_out_of_range:
  "\<exists>p. LoadPolylist_inputs quad_document (\<lambda>v. v) (\<lambda>v. v) (\<lambda>v. v)
          [(''VERTEX'', ''#quad-vertices'', 0), (''TEXCOORD'', ''#uvA'', 0)]
          (new_primitive empty_cache) = Inr (p :: (real \<times> real \<times> real, real) primitive) \<and>
        tuple_width [(''VERTEX'', ''#quad-vertices'', 0), (''TEXCOORD'', ''#uvA'', 0)] = 1 \<and>
        length (inputs p) = 2 \<and>
        list_all (corner_readable [(''VERTEX'', ''#quad-vertices'', 0), (''TEXCOORD'', ''#uvA'', 0)] p)
          (polylist_triangles [(''VERTEX'', ''#quad-vertices'', 0), (''TEXCOORD'', ''#uvA'', 0)]
             [4] [0, 1, 2, 3]) \<and>
        polylist_loop (None :: (real \<times> real \<times> real, string, real) Skeleton option) p [4]
          [0, 1, 2, 3] (Map.empty, new_SubMesh) = Inl OutOfRange"
proof -
  let ?inps = "[(''VERTEX'', ''#quad-vertices'', 0 :: nat), (''TEXCOORD'', ''#uvA'', 0)]"
  obtain p :: "(real \<times> real \<times> real, real) primitive" where
    lp: "LoadPolylist_inputs quad_document (\<lambda>v. v) (\<lambda>v. v) (\<lambda>v. v) ?inps
       (new_primitive empty_cache) = Inr p"
    and p: "inputs p = [(0, 0), (2, 0)]" "hasVertices p" "\<not> hasNormals p" "hasTexcoords p"
      "\<not> combinedVertNorms p" "verts p = [(0, 0, 0), (1, 0, 0), (1, 1, 0), (0, 1, 0)]"
      "texcoords p = [(0, 1), (1, 1), (1, 0), (0, 0)]"
      "positionDupMap p = Map.empty" "texDupMap p = Map.empty"
    by (simp add: quad_document_def eval_load)
  have w: "tuple_width ?inps = 1"
    by (simp add: tuple_width_def)
  have rd: "list_all (corner_readable ?inps p) (polylist_triangles ?inps [4] [0, 1, 2, 3])"
    by (simp add: polylist_triangles_def w fan_triangles_def polygon_corner_def upt_rec
        corner_readable_def semantic_offset_def has_input_def p remap_def)
  have run: "polylist_loop (None :: (real \<times> real \<times> real, string, real) Skeleton option) p [4]
          [0, 1, 2, 3] (Map.empty, new_SubMesh) = Inl OutOfRange"
    by (simp add: p upt_rec polylist_corner_def read_values_def triangle_index_def eval_corner)
  have n: "length (inputs p) = 2"
    by (simp add: p)
  show ?thesis
    by (rule exI[of _ p]) (intro conjI lp w n rd run)
qed

text \<open>
  The quad of scenario S3 for any primitive whose only input is VERTEX and whose first
  four positions have no entry in the duplicate map.
\<close>

lemma quad_polylist_indices:
  assumes "inputs p = [(VERTEX, 0)]" and "hasVertices p" and "\<not> hasNormals p"
    and "\<not> hasTexcoords p" and "\<not> combinedVertNorms p"
    and "4 \<le> length (verts p)"
    and "positionDupMap p 0 = None" "positionDupMap p 1 = None" "positionDupMap p 2 = None"
      "positionDupMap p 3 = None"
  shows "\<exists>vim sm. polylist_loop None p [4] [0, 1, 2, 3] (Map.empty, new_SubMesh) = Inr (vim, sm) \<and>
     indices sm = [0, 1, 2, 0, 2, 3]"
proof -
  have len: "length (inputs p) * sum_list [4] \<le> length [0, 1, 2, 3 :: nat]"
    by (simp add: assms)
  have cs: "polylist_corners (length (inputs p)) [4] [0, 1, 2, 3] = [[0], [1], [2], [0], [2], [3]]"
    by (simp add: assms fan_triangles_def polygon_corner_def upt_rec)
  have ne: "verts p \<noteq> []"
    using assms(6) by auto
  have d: "positionDupMap p (Suc 0) = None"
    using assms(8) by simp
  have "\<exists>vim sm. for_each (weave_corner Polylist None p)
        [[0], [1], [2], [0], [2], [3]] (Map.empty, new_SubMesh) = Inr (vim, sm) \<and>
      indices sm = [0, 1, 2, 0, 2, 3]"
    using assms(6) d ne
    by (simp add: assms(1-5,7-) Let_def weave_corner_def add_vertex_def emit_position_def emit_normal_def
        emit_texcoord_def skin_vertex_def elem_at_def input_offset_def remap_def VERTEX_def
        new_SubMesh_def AddVertex_def AddIndex_def VertexCount_def)
  then show ?thesis
    unfolding polylist_loop_refines_fan[OF len] cs .
qed

subsection \<open>The vertex index map\<close>

text \<open>
  The branch that adds a vertex, reached because no stored entry matches: the new
  index is the previous vertex count, and \<open>vertexIndexMap[p]\<close> then holds the entry of
  the new vertex alone, whatever it held before.
\<close>

lemma no_match_stores_new_entry_alone:
  assumes "hasVertices p"
    and "elem_at vals (input_offset (inputs p) VERTEX) = Inr i"
    and "vertexIndexMap (remap (positionDupMap p) i) = Some inputValues"
    and "reuse_scan p vals inputValues = Inr None"
    and "weave_corner path skeleton p vals (vertexIndexMap, subMesh) = Inr (vim', sm')"
  shows "\<exists>n t.
      VertexCount sm' = VertexCount subMesh + 1 \<and>
      indices sm' = indices subMesh @ [VertexCount subMesh] \<and>
      vim' = vertexIndexMap(remap (positionDupMap p) i \<mapsto>
        [\<lparr>vertexIndex = remap (positionDupMap p) i, normalIndex = n, texcoordIndex = t,
          mappedIndex = VertexCount subMesh\<rparr>]) \<and>
      (case n of Some k \<Rightarrow> hasNormals p \<and> remappedNormalIndex p vals = Inr k
               | None \<Rightarrow> \<not> hasNormals p) \<and>
      (case t of Some k \<Rightarrow> hasTexcoords p \<and> remappedTexcoordIndex p vals = Inr k
               | None \<Rightarrow> \<not> hasTexcoords p)"
proof -
  from assms have "add_vertex path skeleton p vals (remap (positionDupMap p) i)
      (vertexIndexMap, subMesh) = Inr (vim', sm')"
    by (simp add: weave_corner_def)
  from add_vertex_new_entry[OF assms(1) this] show ?thesis .
qed

text \<open>
  So every vector stored in \<open>vertexIndexMap\<close> has exactly one element, at every point of
  the weaving, in both paths: the scan of the stored entries never sees more than the
  entry of the vertex emitted last for the position.
\<close>

lemma add_vertex_map:
  assumes "add_vertex path skeleton p vals d (vim, sm) = Inr (vim', sm')"
  shows "vim' = vim \<or> (\<exists>e. vim' = vim(d \<mapsto> [e]))"
  using assms
  by (auto simp: add_vertex_def split: sum.splits prod.splits option.splits if_splits)

lemma weave_corner_single_entries:
  assumes run: "weave_corner path skeleton p vals st = Inr st'"
    and single: "single_entries (fst st)"
  shows "single_entries (fst st')"
proof -
  obtain vim sm where st: "st = (vim, sm)"
    by (cases st)
  obtain vim' sm' where st': "st' = (vim', sm')"
    by (cases st')
  from run have "vim' = vim \<or>
      (\<exists>d. add_vertex path skeleton p vals d (vim, sm) = Inr (vim', sm'))"
    unfolding st st' weave_corner_def Let_def
    by (auto split: if_splits sum.splits option.splits)
  with add_vertex_map have "vim' = vim \<or> (\<exists>d e. vim' = vim(d \<mapsto> [e]))"
    by blast
  with single show ?thesis
    by (auto simp: st st' single_entries_def split: if_splits)
qed

lemma for_each_invariant:
  assumes step: "\<And>x st st'. x \<in> set xs \<Longrightarrow> I st \<Longrightarrow> f x st = Inr st' \<Longrightarrow> I st'"
    and "I st" and "for_each f xs st = Inr st'"
  shows "I st'"
  using assms
proof (induction xs arbitrary: st)
  case Nil
  then show ?case by simp
next
  case (Cons x xs)
  from Cons.prems(3) obtain st1 where
    s: "f x st = Inr st1" and r: "for_each f xs st1 = Inr st'"
    by (auto split: sum.splits)
  have st1: "I st1"
    using Cons.prems(1)[OF _ Cons.prems(2) s] by simp
  have "\<And>y s s'. y \<in> set xs \<Longrightarrow> I s \<Longrightarrow> f y s = Inr s' \<Longrightarrow> I s'"
    using Cons.prems(1) by (meson list.set_intros(2))
  from Cons.IH[OF this st1 r] show ?case .
qed

lemma polylist_loop_single_entries:
  assumes "polylist_loop skeleton p vcounts strs st = Inr st'"
    and "single_entries (fst st)"
  shows "single_entries (fst st')"
  using assms
proof (induction vcounts arbitrary: strs st)
  case Nil
  then show ?case by simp
next
  case (Cons n vcounts)
  from Cons.prems(1) obtain st1 where
    poly: "for_each (\<lambda>k. for_each (polylist_corner skeleton p strs k) [0..<3]) [2..<n] st =
      Inr st1"
    and rest: "polylist_loop skeleton p vcounts (drop (length (inputs p) * n) strs) st1 = Inr st'"
    by (auto split: sum.splits)
  have corner: "single_entries (fst b)"
    if "single_entries (fst a)" "polylist_corner skeleton p strs k j a = Inr b" for k j a b
  proof -
    from that(2) obtain vals where "weave_corner Polylist skeleton p vals a = Inr b"
      by (auto simp: polylist_corner_def split: sum.splits)
    from weave_corner_single_entries[OF this that(1)] show ?thesis .
  qed
  have triangle: "single_entries (fst b)"
    if "single_entries (fst a)" "for_each (polylist_corner skeleton p strs k) [0..<3] a = Inr b"
    for k a b
    by (rule for_each_invariant[where I = "\<lambda>s. single_entries (fst s)", OF _ that])
      (rule corner)
  have "single_entries (fst st1)"
    by (rule for_each_invariant[where I = "\<lambda>s. single_entries (fst s)",
          OF _ Cons.prems(2) poly]) (rule triangle)
  from Cons.IH[OF rest this] show ?case .
qed

lemma triangles_loop_single_entries:
  assumes "triangles_loop skeleton p strs st = Some (Inr st')"
    and "single_entries (fst st)"
  shows "single_entries (fst st')"
proof -
  have "\<forall>st1. single_entries (fst st0) \<longrightarrow> r = Inr st1 \<longrightarrow> single_entries (fst st1)"
    if "triangles_loop sk p' strs' st0 = Some r" for sk p' strs' st0 r
    using that
  proof (induction rule: triangles_loop.raw_induct[rotated 1, consumes 1])
    case (1 loop sk p' strs' st0 r)
    show ?case
    proof (intro allI impI)
      fix st1
      assume single: "single_entries (fst st0)" and r: "r = Inr st1"
      show "single_entries (fst st1)"
      proof (cases "strs' = []")
        case True
        with "1.hyps" r single show ?thesis by simp
      next
        case False
        with "1.hyps" r have long: "\<not> length strs' < offsetSize p'"
          by (auto split: if_splits)
        with False "1.hyps" r obtain st2 where
          w: "weave_corner Triangles sk p' (take (offsetSize p') strs') st0 = Inr st2"
          and l: "loop sk p' (drop (offsetSize p') strs') st2 = Some r"
          by (auto split: sum.splits)
        from weave_corner_single_entries[OF w single] "1.IH"[OF l] r show ?thesis
          by simp
      qed
    qed
  qed
  from this[OF assms(1)] assms(2) show ?thesis
    by simp
qed

lemma vertexIndexMap_single_entries:
  "polylist_loop skeleton p vcounts strs (Map.empty, new_SubMesh) = Inr (vim, sm) \<Longrightarrow>
     single_entries vim"
  "triangles_loop skeleton p strs' (Map.empty, new_SubMesh) = Some (Inr (vim, sm)) \<Longrightarrow>
     single_entries vim"
  using polylist_loop_single_entries[of skeleton p vcounts strs "(Map.empty, new_SubMesh)" "(vim, sm)"]
    triangles_loop_single_entries[of skeleton p strs' "(Map.empty, new_SubMesh)" "(vim, sm)"]
  by (simp_all add: single_entries_def)

lemmas eval_weave = triangles_loop.simps two_normals_primitive_def three_triangles_def
      new_primitive_def
      weave_corner_def add_vertex_def emit_position_def emit_normal_def emit_texcoord_def
      skin_vertex_def elem_at_def input_offset_def remap_def remappedNormalIndex_def
      VERTEX_def NORMAL_def TEXCOORD_def
      new_SubMesh_def AddVertex_def AddIndex_def AddNormal_def VertexCount_def

text \<open>
  C1. The claim: in both paths, when the remapped position index \<open>p\<close> of a corner is
  already in \<open>vertexIndexMap\<close> and no stored entry matches the corner's remapped normal
  and texture-coordinate indices, a new output vertex is emitted without overwriting
  \<open>vertexIndexMap[p]\<close>, which retains, throughout the weaving of one sub-mesh, the entry
  recorded at the first occurrence of \<open>p\<close>.

  The code does not do this. \<open>vertexIndexMap\<close> maps a position to a vector of entries and
  the reuse scan walks that vector, but the branch that adds a vertex ends with
  \<^verbatim>\<open>vertexIndexMap[daeVertIndex] = inputValues\<close> for a fresh vector that holds the new
  entry alone (lines 1988-1990 and 1708-1710), where appending the new entry to the
  stored vector would keep the earlier ones. On \<open>three_triangles\<close> (VERTEX at offset 0,
  NORMAL at offset 1, corners \<open>(P0,NA) (P1,NA) (P2,NA)  (P0,NB) (P2,NB) (P3,NB)
  (P0,NA) (P3,NA) (P1,NA)\<close>): after three corners the map holds for position 0 the entry of
  the first corner, output index 0; the fourth corner \<open>(P0, NB)\<close> does not match it, in
  either path, and afterwards the map holds for position 0 only the entry of the fourth
  corner, output index 3. So the seventh corner \<open>(P0, NA)\<close>, equal to the first, finds no
  match and is emitted again: the index stream is \<open>0,1,2, 3,4,5, 6,7,1\<close> and output
  vertices 0 and 6 carry the same position and the same normal, where a map that
  retains the first entry gives \<open>0,1,2, 3,4,5, 0,6,1\<close>.
\<close>

theorem first_entry_not_retained:
  "fst (corners_woven 3) 0 =
     Some [\<lparr>vertexIndex = 0, normalIndex = Some 0, texcoordIndex = None, mappedIndex = 0\<rparr>] \<and>
   reuse_scan two_normals_primitive [0, 1]
     [\<lparr>vertexIndex = 0, normalIndex = Some 0, texcoordIndex = None, mappedIndex = 0\<rparr>] = Inr None \<and>
   weave_corner Triangles None two_normals_primitive [0, 1] (corners_woven 3) =
     Inr (corners_woven 4) \<and>
   weave_corner Polylist None two_normals_primitive [0, 1] (corners_woven 3) =
     Inr (corners_woven 4) \<and>
   fst (corners_woven 4) 0 =
     Some [\<lparr>vertexIndex = 0, normalIndex = Some 1, texcoordIndex = None, mappedIndex = 3\<rparr>] \<and>
   \<not> first_entry_retained (fst (corners_woven 3)) (fst (corners_woven 4)) 0 \<and>
   triangles_loop None two_normals_primitive three_triangles (Map.empty, new_SubMesh) =
     Some (Inr (corners_woven 9)) \<and>
   polylist_loop None two_normals_primitive [3, 3, 3] three_triangles (Map.empty, new_SubMesh) =
     Inr (corners_woven 9) \<and>
   indices (snd (corners_woven 9)) = [0, 1, 2, 3, 4, 5, 6, 7, 1] \<and>
   vertices (snd (corners_woven 9)) ! 0 = ''P0'' \<and> vertices (snd (corners_woven 9)) ! 6 = ''P0'' \<and>
   normals (snd (corners_woven 9)) ! 0 = ''NA'' \<and> normals (snd (corners_woven 9)) ! 6 = ''NA''"
proof -
  have c3: "fst (corners_woven 3) 0 =
     Some [\<lparr>vertexIndex = 0, normalIndex = Some 0, texcoordIndex = None, mappedIndex = 0\<rparr>]"
    by (simp add: corners_woven_def eval_weave)
  have c4: "fst (corners_woven 4) 0 =
     Some [\<lparr>vertexIndex = 0, normalIndex = Some 1, texcoordIndex = None, mappedIndex = 3\<rparr>]"
    by (simp add: corners_woven_def eval_weave)
  have nomatch: "reuse_scan two_normals_primitive [0, 1]
      [\<lparr>vertexIndex = 0, normalIndex = Some 0, texcoordIndex = None, mappedIndex = 0\<rparr>] = Inr None"
    by (simp add: eval_weave)
  have step: "weave_corner Triangles None two_normals_primitive [0, 1] (corners_woven 3) =
      Inr (corners_woven 4)"
    "weave_corner Polylist None two_normals_primitive [0, 1] (corners_woven 3) =
      Inr (corners_woven 4)"
    by (simp_all add: corners_woven_def eval_weave)
  have lost: "\<not> first_entry_retained (fst (corners_woven 3)) (fst (corners_woven 4)) 0"
    by (simp add: first_entry_retained_def c3 c4)
  have tri: "triangles_loop None two_normals_primitive three_triangles (Map.empty, new_SubMesh) =
      Some (Inr (corners_woven 9))"
    by (simp add: corners_woven_def eval_weave)
  have poly: "polylist_loop None two_normals_primitive [3, 3, 3] three_triangles
      (Map.empty, new_SubMesh) = Inr (corners_woven 9)"
    by (simp add: corners_woven_def eval_weave upt_rec polylist_corner_def read_values_def
        triangle_index_def)
  have all: "indices (snd (corners_woven 9)) = [0, 1, 2, 3, 4, 5, 6, 7, 1]"
    "vertices (snd (corners_woven 9)) ! 0 = ''P0''" "vertices (snd (corners_woven 9)) ! 6 = ''P0''"
    "normals (snd (corners_woven 9)) ! 0 = ''NA''" "normals (snd (corners_woven 9)) ! 6 = ''NA''"
    by (simp_all add: corners_woven_def eval_weave)
  show ?thesis
    by (intro conjI c3 c4 nomatch step lost tri poly all)
qed

text \<open>
  The loop of \<^verbatim>\<open>LoadTriangles\<close> returns whenever the primitive has an \<^verbatim>\<open><input>\<close>
  (the step \<open>offsetSize\<close> is positive), with a state or with an error; without any
  input it does not return.
\<close>

lemma triangles_loop_returns:
  assumes "0 < offsetSize p"
  shows "\<exists>r. triangles_loop skeleton p strs st = Some r"
proof (induction "length strs" arbitrary: strs st rule: less_induct)
  case less
  show ?case
  proof (cases "strs = [] \<or> length strs < offsetSize p")
    case True
    then show ?thesis
      by (subst triangles_loop.simps) auto
  next
    case False
    show ?thesis
    proof (cases "weave_corner Triangles skeleton p (take (offsetSize p) strs) st")
      case (Inl e)
      with False show ?thesis
        by (subst triangles_loop.simps) simp
    next
      case (Inr st')
      have "length (drop (offsetSize p) strs) < length strs"
        using False assms by simp
      from less[OF this, of st'] Inr False show ?thesis
        by (subst triangles_loop.simps) simp
    qed
  qed
qed

lemma triangles_loop_without_inputs:
  assumes "offsetSize p = 0" and "strs \<noteq> []" and "\<not> hasVertices p" and "\<not> hasNormals p"
    and "\<not> hasTexcoords p"
  shows "triangles_loop skeleton p strs st = None"
proof -
  have step: "weave_corner Triangles skeleton p [] st' = Inr st'" for st'
    using assms(3-5)
    by (cases st') (simp add: weave_corner_def add_vertex_def emit_normal_def emit_texcoord_def)
  have "strs' = [] \<or> offsetSize p' \<noteq> 0 \<or> hasVertices p' \<or> hasNormals p' \<or> hasTexcoords p'"
    if "triangles_loop sk p' strs' st' = Some r" for sk p' strs' st' r
    using that
  proof (induction rule: triangles_loop.raw_induct[rotated 1, consumes 1])
    case (1 loop sk p' strs' st' r)
    show ?case
    proof (rule ccontr)
      assume neg: "\<not> ?thesis"
      then have w: "weave_corner Triangles sk p' [] st' = Inr st'"
        by (cases st') (simp add: weave_corner_def add_vertex_def emit_normal_def emit_texcoord_def)
      from neg "1.hyps" w have "loop sk p' strs' st' = Some r"
        by simp
      from "1.IH"[OF this] neg show False by simp
    qed
  qed
  from this[of skeleton p strs st] assms show ?thesis
    by (cases "triangles_loop skeleton p strs st") auto
qed

section \<open>Proofs: animation sets\<close>

lemma LoadAnimations_loop_returns_only_on_null:
  assumes "LoadAnimations_loop childXml calls = Some result"
  shows "childXml = []"
proof (rule LoadAnimations_loop.raw_induct[where P = "\<lambda>ptr trace res. ptr = []", OF _ assms])
  fix loop :: "XMLElement list \<Rightarrow> XMLElement list \<Rightarrow> XMLElement list option"
    and ptr trace res
  assume IH: "\<And>ptr trace res. loop ptr trace = Some res \<Longrightarrow> ptr = []"
    and step: "(case ptr of
        [] \<Rightarrow> Some trace
      | elem # siblings \<Rightarrow>
          (let unused = NextSiblingElement ''animation'' ptr in loop ptr (trace @ [elem]))) = Some res"
  show "ptr = []"
  proof (cases ptr)
    case Nil
    then show ?thesis .
  next
    case (Cons elem siblings)
    with step have "loop ptr (trace @ [elem]) = Some res"
      by (simp add: Let_def)
    then show ?thesis by (rule IH)
  qed
qed

lemma LoadAnimations_loop_diverges:
  "LoadAnimations_loop (elem # siblings) calls = None"
  using LoadAnimations_loop_returns_only_on_null[of "elem # siblings" calls]
  by (cases "LoadAnimations_loop (elem # siblings) calls") auto

lemma LoadAnimations_loop_repeats:
  "LoadAnimations_loop (elem # siblings) calls =
     LoadAnimations_loop (elem # siblings) (calls @ replicate n elem)"
proof (induction n arbitrary: calls)
  case 0
  then show ?case by simp
next
  case (Suc n)
  have "LoadAnimations_loop (elem # siblings) calls =
      LoadAnimations_loop (elem # siblings) (calls @ [elem])"
    by (subst LoadAnimations_loop.simps) (simp add: Let_def)
  also have "\<dots> = LoadAnimations_loop (elem # siblings) ((calls @ [elem]) @ replicate n elem)"
    by (rule Suc.IH)
  finally show ?case
    by (simp add: replicate_app_Cons_same)
qed

lemma LoadAnimations_nested:
  assumes "FirstChildElement ''animation'' xml = child # siblings"
    and "FirstChildElement ''animation'' child \<noteq> []"
  shows "LoadAnimations xml = None"
  using assms by (simp add: LoadAnimations_def LoadAnimations_loop_diverges)

text \<open>
  C2. For every \<^verbatim>\<open><library_animations>\<close> element with nested \<^verbatim>\<open><animation>\<close> groups (its
  first \<^verbatim>\<open><animation>\<close> child has an \<^verbatim>\<open><animation>\<close> child), \<^verbatim>\<open>LoadAnimations\<close>
  terminates and invokes \<^verbatim>\<open>LoadAnimationSet\<close> exactly once for each top-level
  \<^verbatim>\<open><animation>\<close> child, in document order. The code does not: the loop drops the value
  of \<^verbatim>\<open>NextSiblingElement\<close>, so \<open>childXml\<close> never changes, the loop never returns
  (\<open>LoadAnimations_nested\<close>) and \<^verbatim>\<open>LoadAnimationSet\<close> is invoked on the first child again
  and again (\<open>LoadAnimations_loop_repeats\<close>). The library below has two top-level groups.
\<close>

theorem LoadAnimations_nested_never_returns:
  "top_level_animations nested_library =
     [XMLElement ''animation'' [(''id'', ''walk'')] None [XMLElement ''animation'' [] None []],
      XMLElement ''animation'' [(''id'', ''run'')] None [XMLElement ''animation'' [] None []]] \<and>
   LoadAnimations nested_library = None \<and>
   LoadAnimations nested_library \<noteq> Some (Inr (top_level_animations nested_library))"
proof -
  have "LoadAnimations nested_library = None"
    by (rule LoadAnimations_nested[where child = "XMLElement ''animation'' [(''id'', ''walk'')] None
          [XMLElement ''animation'' [] None []]"])
      (simp_all add: nested_library_def FirstChildElement_def)
  then show ?thesis
    by (simp add: top_level_animations_def nested_library_def)
qed

section \<open>Proofs: skeleton node transforms\<close>

lemma scale_without_matrix_fails:
  assumes "FirstChildElement ''matrix'' elem = []"
    and "FirstChildElement ''scale'' elem \<noteq> []"
  shows "\<exists>e. SetSkeletonNodeTransform elem = Inl e"
  using assms
  by (auto simp: SetSkeletonNodeTransform_def split: list.splits option.splits sum.splits)

text \<open>
  C8. When the transform of a skeleton node is set from a node element without a
  \<^verbatim>\<open><matrix>\<close> child, each \<^verbatim>\<open><translate>\<close>, \<^verbatim>\<open><rotate>\<close> and \<^verbatim>\<open><scale>\<close> child is pushed as
  a raw transform with that element's own kind, source parameters and SID; in particular
  the raw transform of a \<^verbatim>\<open><scale>\<close> carries the \<^verbatim>\<open>sid\<close> of the \<^verbatim>\<open><scale>\<close> element. The code
  does this for \<^verbatim>\<open><translate>\<close> and \<^verbatim>\<open><rotate>\<close> (third conjunct), but reads the SID of a
  \<^verbatim>\<open><scale>\<close> from the \<^verbatim>\<open><matrix>\<close> child, which this branch does not have: a null pointer
  is dereferenced and no raw transform of the \<^verbatim>\<open><scale>\<close> is produced
  (\<open>scale_without_matrix_fails\<close> for every such element).
\<close>

theorem scale_sid_read_from_matrix:
  "SetSkeletonNodeTransform joint_node = Inl NullDeref \<and>
   SetSkeletonNodeTransform joint_node \<noteq>
     Inr [raw_transform_of TRANSLATE (children joint_node ! 0),
          raw_transform_of ROTATE (children joint_node ! 1),
          raw_transform_of SCALE (children joint_node ! 2)] \<and>
   SetSkeletonNodeTransform
     (XMLElement ''node'' [] None (butlast (children joint_node))) =
     Inr [raw_transform_of TRANSLATE (children joint_node ! 0),
          raw_transform_of ROTATE (children joint_node ! 1)]"
  by (simp add: SetSkeletonNodeTransform_def joint_node_def FirstChildElement_def
      NextSiblingElement_def Attribute_def raw_transform_of_def)

section \<open>Proofs: the version check of \<^verbatim>\<open>Load\<close>\<close>

text \<open>
  C9. \<^verbatim>\<open>Load\<close> emits a version error if and only if the \<^verbatim>\<open>version\<close> attribute of the
  \<^verbatim>\<open><COLLADA>\<close> element differs from both \<open>"1.4.0"\<close> and \<open>"1.4.1"\<close>, and in that case
  processing still proceeds: the scene is loaded and a mesh is returned. For a document
  with a \<^verbatim>\<open><COLLADA>\<close> element that has a \<^verbatim>\<open>version\<close> attribute, the messages \<open>own\<close> that
  \<^verbatim>\<open>Load\<close> itself prints contain the version error exactly in that case, and in both cases
  \<^verbatim>\<open>Load\<close> runs \<^verbatim>\<open>LoadScene\<close> on the new mesh and returns the scaled mesh whenever
  \<^verbatim>\<open>LoadScene\<close> returns. The witness loads a document of version 1.5.0.
\<close>

theorem version_error_iff:
  assumes "FirstChildElement ''COLLADA'' xmlDoc = colladaXml # others"
    and "Attribute colladaXml ''version'' = Some version"
  shows "\<exists>own.
     Load LoadNode parseFloat filename loadResult xmlDoc =
       (case LoadScene LoadNode colladaXml (SetPath new_Mesh (dirname filename)) of
          Inl e \<Rightarrow> Inl e
        | Inr (mesh, scene_log) \<Rightarrow>
            Inr (Scale mesh (unit_meter parseFloat colladaXml), own @ scene_log)) \<and>
     (invalid_version \<in> set own \<longleftrightarrow> version \<noteq> ''1.4.0'' \<and> version \<noteq> ''1.4.1'')"
proof -
  let ?own = "(if loadResult = 0 then [unable_to_load filename] else []) @
     (if version \<noteq> ''1.4.0'' \<and> version \<noteq> ''1.4.1'' then [invalid_version] else [])"
  have "Load LoadNode parseFloat filename loadResult xmlDoc =
       (case LoadScene LoadNode colladaXml (SetPath new_Mesh (dirname filename)) of
          Inl e \<Rightarrow> Inl e
        | Inr (mesh, scene_log) \<Rightarrow>
            Inr (Scale mesh (unit_meter parseFloat colladaXml), ?own @ scene_log))"
    using assms by (simp add: Load_def Let_def split: sum.splits)
  moreover have "invalid_version \<in> set ?own \<longleftrightarrow> version \<noteq> ''1.4.0'' \<and> version \<noteq> ''1.4.1''"
    by (simp add: invalid_version_def unable_to_load_def)
  ultimately show ?thesis by blast
qed

theorem version_error_iff_witness:
  "FirstChildElement ''COLLADA'' collada_1_5 = [hd (children collada_1_5)] \<and>
   Attribute (hd (children collada_1_5)) ''version'' = Some ''1.5.0'' \<and>
   (\<exists>msgs. Load name_node (\<lambda>s. 1) ''models/cube.dae'' 0 collada_1_5 =
        Inr (\<lparr>meshPath = ''models'', subMeshes = [''Cube''], scaleFactors = [1]\<rparr>, msgs) \<and>
      invalid_version \<in> set msgs)"
proof -
  have c: "FirstChildElement ''COLLADA'' collada_1_5 = [hd (children collada_1_5)]"
    by (simp add: collada_1_5_def FirstChildElement_def)
  have v: "Attribute (hd (children collada_1_5)) ''version'' = Some ''1.5.0''"
    by (simp add: collada_1_5_def Attribute_def)
  have s: "LoadScene name_node (hd (children collada_1_5)) (SetPath new_Mesh (dirname ''models/cube.dae'')) =
      Inr (\<lparr>meshPath = ''models'', subMeshes = [''Cube''], scaleFactors = []\<rparr>, [])"
    by (simp add: LoadScene_def collada_1_5_def FirstChildElement_def Attribute_def strip_hash_def
        NextSiblingElement_def name_node_def SetPath_def new_Mesh_def dirname_def)
  have m: "unit_meter (\<lambda>s. 1 :: real) (hd (children collada_1_5)) = 1"
    by (simp add: unit_meter_def collada_1_5_def FirstChildElement_def)
  from version_error_iff[OF c v, of name_node "\<lambda>s. 1" "''models/cube.dae''" 0]
  obtain own where
    run: "Load name_node (\<lambda>s. 1) ''models/cube.dae'' 0 collada_1_5 =
      Inr (Scale \<lparr>meshPath = ''models'', subMeshes = [''Cube''], scaleFactors = []\<rparr>
             (unit_meter (\<lambda>s. 1) (hd (children collada_1_5))), own @ [])"
    and own: "invalid_version \<in> set own"
    by (auto simp: s)
  from run have "Load name_node (\<lambda>s. 1) ''models/cube.dae'' 0 collada_1_5 =
      Inr (\<lparr>meshPath = ''models'', subMeshes = [''Cube''], scaleFactors = [1]\<rparr>, own)"
    by (simp add: m Scale_def)
  with own c v show ?thesis by blast
qed

end
